theory Spec2Isabelle
  imports Complex_Main
begin

section \<open>The Digital Mirror: scoring engine, challenge controller and face tracker\<close>

text \<open>
  A shallow embedding of \<^verbatim>\<open>class DigitalMirror\<close> of \<^verbatim>\<open>script.js\<close>.
  JavaScript numbers are modelled as real numbers, so rounding of doubles is outside the
  model. Every call of \<^verbatim>\<open>Math.random()\<close> and \<^verbatim>\<open>Date.now()\<close> is an explicit argument.
  Drawing, DOM text and speech recognition are left out; the fields they read are kept.
\<close>

subsection \<open>Scoring engine\<close>

text \<open>The object literal returned by \<^verbatim>\<open>generateSimulatedMetrics\<close> and
  \<^verbatim>\<open>calculateRealFacialMetrics\<close>.\<close>

record subMetrics =
  mouthCurvature :: real
  eyeSymmetry :: real
  smileIntensity :: real
  mouthWidth :: real
  facialTension :: real

text \<open>\<^verbatim>\<open>generateSimulatedMetrics\<close>: five calls of \<^verbatim>\<open>Math.random()\<close>, in the order
  of the object literal.\<close>

definition generateSimulatedMetrics :: "real \<Rightarrow> real \<Rightarrow> real \<Rightarrow> real \<Rightarrow> real \<Rightarrow> subMetrics" where
  "generateSimulatedMetrics r1 r2 r3 r4 r5 =
     \<lparr> mouthCurvature = r1 * 30 + 40,
       eyeSymmetry = r2 * 25 + 60,
       smileIntensity = r3 * 35 + 45,
       mouthWidth = r4 * 20 + 70,
       facialTension = r5 * 40 + 30 \<rparr>"

text \<open>\<^verbatim>\<open>calculateRealisticScore(metrics, level)\<close>: the weighted sum, then the
  \<^verbatim>\<open>switch (level)\<close> with \<^verbatim>\<open>Math.min\<close> before \<^verbatim>\<open>Math.max\<close>; a level
  without a \<^verbatim>\<open>case\<close> leaves the sum as it is.\<close>

definition calculateRealisticScore :: "subMetrics \<Rightarrow> nat \<Rightarrow> real" where
  "calculateRealisticScore metrics level =
     (let baseScore =
            mouthCurvature metrics * 0.3 +
            eyeSymmetry metrics * 0.2 +
            smileIntensity metrics * 0.3 +
            mouthWidth metrics * 0.1 +
            (100 - facialTension metrics) * 0.1
      in if level = 1 then max (min baseScore 75) 55
         else if level = 2 then max (min baseScore 65) 40
         else if level = 3 then max (min baseScore 45) 25
         else baseScore)"

text \<open>\<^verbatim>\<open>calculateSimulatedScore(metrics, level)\<close>: the same body, written a second
  time in the source.\<close>

definition calculateSimulatedScore :: "subMetrics \<Rightarrow> nat \<Rightarrow> real" where
  "calculateSimulatedScore metrics level =
     (let baseScore =
            mouthCurvature metrics * 0.3 +
            eyeSymmetry metrics * 0.2 +
            smileIntensity metrics * 0.3 +
            mouthWidth metrics * 0.1 +
            (100 - facialTension metrics) * 0.1
      in if level = 1 then max (min baseScore 75) 55
         else if level = 2 then max (min baseScore 65) 40
         else if level = 3 then max (min baseScore 45) 25
         else baseScore)"

text \<open>\<^verbatim>\<open>x.toFixed(1)\<close>, read back as a number: the nearest multiple of one tenth,
  the larger one on a tie.\<close>

definition toFixed1 :: "real \<Rightarrow> real" where
  "toFixed1 x = real_of_int (round (x * 10)) / 10"

record scoreData =
  score :: real
  subMetricsOf :: subMetrics

text \<open>
  \<^verbatim>\<open>generateSmileScore(level)\<close>. \<open>useReal\<close> is the test
  \<^verbatim>\<open>this.isModelLoaded && this.realLandmarks.length > 0\<close>; \<open>metrics\<close> is the record
  that \<^verbatim>\<open>calculateRealFacialMetrics\<close> or \<^verbatim>\<open>generateSimulatedMetrics\<close> returned on
  that branch; \<open>rnd\<close> is the value of \<^verbatim>\<open>Math.random()\<close> in the variance line.
\<close>

definition generateSmileScore :: "bool \<Rightarrow> subMetrics \<Rightarrow> real \<Rightarrow> nat \<Rightarrow> scoreData" where
  "generateSmileScore useReal metrics rnd level =
     (let baseScore = (if useReal then calculateRealisticScore metrics level
                       else calculateSimulatedScore metrics level);
          variance = (rnd - 0.5) * 6;
          finalScore = max 5 (min 79 (baseScore + variance))
      in \<lparr> score = toFixed1 finalScore, subMetricsOf = metrics \<rparr>)"

text \<open>The weighted base score and the level bands in the words of the specification.\<close>

definition spec_weightedBase :: "subMetrics \<Rightarrow> real" where
  "spec_weightedBase m =
     0.3 * mouthCurvature m + 0.2 * eyeSymmetry m + 0.3 * smileIntensity m
       + 0.1 * mouthWidth m + 0.1 * (100 - facialTension m)"

definition spec_bandLow :: "nat \<Rightarrow> real" where
  "spec_bandLow level = (if level = 1 then 55 else if level = 2 then 40 else 25)"

definition spec_bandHigh :: "nat \<Rightarrow> real" where
  "spec_bandHigh level = (if level = 1 then 75 else if level = 2 then 65 else 45)"

definition spec_clamp :: "real \<Rightarrow> real \<Rightarrow> real \<Rightarrow> real" where
  "spec_clamp lo hi x = (if x < lo then lo else if hi < x then hi else x)"

subsection \<open>Numbers that may be undefined, landmarks and detector output\<close>

text \<open>
  A coordinate stored by the tracker. \<open>Num r\<close> is the number \<open>r\<close>; \<open>NaN\<close> is a value
  that is no real number: \<^verbatim>\<open>NaN\<close> itself, and also a stored \<^verbatim>\<open>undefined\<close>, since
  every later use of a stored coordinate is arithmetic, which turns \<^verbatim>\<open>undefined\<close> into
  \<^verbatim>\<open>NaN\<close>. Arithmetic with a \<open>NaN\<close> operand gives \<open>NaN\<close>. A quotient by zero is no
  real number either; the tracker divides by 2 and by video sizes it has tested against 0.
\<close>

datatype jsnum = NaN | Num real

instantiation jsnum :: "{plus, minus, times, inverse}"
begin

fun plus_jsnum :: "jsnum \<Rightarrow> jsnum \<Rightarrow> jsnum" where
  "plus_jsnum (Num a) (Num b) = Num (a + b)"
| "plus_jsnum _ _ = NaN"

fun minus_jsnum :: "jsnum \<Rightarrow> jsnum \<Rightarrow> jsnum" where
  "minus_jsnum (Num a) (Num b) = Num (a - b)"
| "minus_jsnum _ _ = NaN"

fun times_jsnum :: "jsnum \<Rightarrow> jsnum \<Rightarrow> jsnum" where
  "times_jsnum (Num a) (Num b) = Num (a * b)"
| "times_jsnum _ _ = NaN"

fun divide_jsnum :: "jsnum \<Rightarrow> jsnum \<Rightarrow> jsnum" where
  "divide_jsnum (Num a) (Num b) = (if b = 0 then NaN else Num (a / b))"
| "divide_jsnum _ _ = NaN"

fun inverse_jsnum :: "jsnum \<Rightarrow> jsnum" where
  "inverse_jsnum (Num a) = (if a = 0 then NaN else Num (inverse a))"
| "inverse_jsnum NaN = NaN"

instance ..

end

text \<open>\<^verbatim>\<open>Math.min(a, b)\<close>, \<^verbatim>\<open>Math.max(a, b)\<close> and \<^verbatim>\<open>Math.sqrt(a)\<close>.\<close>

fun jsMin2 :: "jsnum \<Rightarrow> jsnum \<Rightarrow> jsnum" where
  "jsMin2 (Num a) (Num b) = Num (min a b)"
| "jsMin2 _ _ = NaN"

fun jsMax2 :: "jsnum \<Rightarrow> jsnum \<Rightarrow> jsnum" where
  "jsMax2 (Num a) (Num b) = Num (max a b)"
| "jsMax2 _ _ = NaN"

fun jsSqrt :: "jsnum \<Rightarrow> jsnum" where
  "jsSqrt (Num a) = (if a < 0 then NaN else Num (sqrt a))"
| "jsSqrt NaN = NaN"

text \<open>\<^verbatim>\<open>Math.min(...xs)\<close> and \<^verbatim>\<open>Math.max(...xs)\<close>. Both callers test
  \<^verbatim>\<open>length > 0\<close> first; with no argument JavaScript returns an infinity, which is no
  real number.\<close>

fun mathMin :: "jsnum list \<Rightarrow> jsnum" where
  "mathMin [] = NaN"
| "mathMin [a] = a"
| "mathMin (a # b # rest) = jsMin2 a (mathMin (b # rest))"

fun mathMax :: "jsnum list \<Rightarrow> jsnum" where
  "mathMax [] = NaN"
| "mathMax [a] = a"
| "mathMax (a # b # rest) = jsMax2 a (mathMax (b # rest))"

text \<open>A stored landmark: the array literal \<^verbatim>\<open>[x, y, z]\<close>; \<open>p0\<close>, \<open>p1\<close>, \<open>p2\<close> read
  \<^verbatim>\<open>point[0]\<close>, \<^verbatim>\<open>point[1]\<close>, \<^verbatim>\<open>point[2]\<close>.\<close>

datatype point = Point (p0: jsnum) (p1: jsnum) (p2: jsnum)

text \<open>\<^verbatim>\<open>distance(point1, point2)\<close>.\<close>

definition distance :: "point \<Rightarrow> point \<Rightarrow> jsnum" where
  "distance point1 point2 =
     (let dx = p0 point1 - p0 point2;
          dy = p1 point1 - p1 point2;
          dz = p2 point1 - p2 point2
      in jsSqrt (dx * dx + dy * dy + dz * dz))"

text \<open>
  One keypoint as the detector delivers it. \<open>KObject x y z\<close> is an object whose
  properties \<^verbatim>\<open>x\<close>, \<^verbatim>\<open>y\<close>, \<^verbatim>\<open>z\<close> are numbers or absent (\<open>None\<close>) and that has no
  properties \<^verbatim>\<open>0\<close> and \<^verbatim>\<open>1\<close>; \<open>KArray cs\<close> is an array of numbers without
  properties \<^verbatim>\<open>x\<close> and \<^verbatim>\<open>y\<close>; \<open>KNull\<close> is \<^verbatim>\<open>null\<close>; \<open>KPrimitive\<close> is any value
  whose \<^verbatim>\<open>typeof\<close> is not \<^verbatim>\<open>'object'\<close>.
\<close>

datatype keypoint =
    KObject "real option" "real option" "real option"
  | KArray "real list"
  | KNull
  | KPrimitive

text \<open>The argument of \<^verbatim>\<open>createBasicLandmarksFromBoundingBox\<close>.\<close>

record boundingBoxArg =
  xCenter :: jsnum
  yCenter :: jsnum
  bbWidth :: jsnum
  bbHeight :: jsnum

text \<open>The fields of a detected face that the tracker reads; \<open>None\<close> is an absent
  field.\<close>

record face =
  face_keypoints :: "keypoint list option"
  face_landmarks :: "keypoint list option"
  face_scaledMesh :: "keypoint list option"
  face_boundingBox :: "boundingBoxArg option"

text \<open>What \<^verbatim>\<open>await this.model.estimateFaces(...)\<close> does in one frame.\<close>

datatype detection = Rejects | Resolves "face list"

text \<open>\<^verbatim>\<open>this.faceBoundingBox\<close>: centre and extents.\<close>

record faceBox =
  box_x :: jsnum
  box_y :: jsnum
  box_width :: jsnum
  box_height :: jsnum

datatype error = TypeError

subsection \<open>The state of the mirror\<close>

text \<open>
  A callback waiting in the timer queue. \<open>IntroPrompt\<close> (2500 ms) and \<open>IntroMeasure\<close>
  (1500 ms) are the two nested timeouts of the first claim, \<open>Verify\<close> (1000 ms) the
  timeout of a later claim, \<open>Failure\<close> (1000 ms) the one of \<^verbatim>\<open>updateHumanityLevel\<close>,
  and \<open>AnalysisInterval id progress\<close> the interval of \<^verbatim>\<open>startFakeAnalysis\<close> with its
  closure variable \<^verbatim>\<open>progress\<close>. Timeouts that only change displayed text are left out.
\<close>

datatype timer =
    IntroPrompt
  | IntroMeasure
  | Verify
  | Failure
  | AnalysisInterval nat real

text \<open>
  A pending piece of the animation loop: \<open>FrameRequest id\<close> is a callback handed to
  \<^verbatim>\<open>requestAnimationFrame\<close> that has not run yet, with its handle;
  \<open>DetectionPending\<close> is a call of \<^verbatim>\<open>updateFacialAnalysisOverlay\<close> suspended at
  \<^verbatim>\<open>await this.model.estimateFaces(...)\<close>.
\<close>

datatype frameTask = FrameRequest nat | DetectionPending

text \<open>
  The fields of \<^verbatim>\<open>DigitalMirror\<close> that the modelled methods read or write.
  \<open>webcam\<close> is \<open>None\<close> when the element is missing, otherwise its
  \<^verbatim>\<open>videoWidth\<close> and \<^verbatim>\<open>videoHeight\<close>. \<open>model\<close>, \<open>recognition\<close> and
  \<open>facialOverlay\<close> say whether the object exists. \<open>timers\<close> is the queue of pending
  callbacks and \<open>nextTimerId\<close> the next interval identifier of the host (identifiers are
  positive). \<open>frameTasks\<close> holds the pending pieces of the animation loop and
  \<open>nextFrameId\<close> is the next handle of \<^verbatim>\<open>requestAnimationFrame\<close>.
\<close>

record mirror =
  smileLevel :: nat
  humanityPercentage :: int
  isListening :: bool
  recognition :: bool
  currentSmileScoreData :: "scoreData option"
  isAnalyzing :: bool
  analysisTimer :: "nat option"
  facialOverlay :: bool
  faceCenter :: "jsnum \<times> jsnum"
  model :: bool
  isModelLoaded :: bool
  realLandmarks :: "point list"
  animationFrameId :: "nat option"
  isTracking :: bool
  faceBoundingBox :: "faceBox option"
  smoothedLandmarks :: "point list"
  lastTriggerTime :: nat
  isProcessing :: bool
  webcam :: "(nat \<times> nat) option"
  timers :: "timer list"
  nextTimerId :: nat
  frameTasks :: "frameTask list"
  nextFrameId :: nat

text \<open>\<^verbatim>\<open>this.maxSmileLevel\<close> and \<^verbatim>\<open>this.landmarkSmoothingFactor\<close> are assigned in
  the constructor only.\<close>

definition maxSmileLevel :: nat where
  "maxSmileLevel = 3"

definition landmarkSmoothingFactor :: real where
  "landmarkSmoothingFactor = 0.7"

text \<open>The constructor. The webcam element, the detector and the speech recogniser
  come from the page and from \<^verbatim>\<open>init()\<close>.\<close>

definition newMirror :: "(nat \<times> nat) option \<Rightarrow> bool \<Rightarrow> bool \<Rightarrow> mirror" where
  "newMirror cam detector recog =
     \<lparr> smileLevel = 0,
       humanityPercentage = 100,
       isListening = recog,
       recognition = recog,
       currentSmileScoreData = None,
       isAnalyzing = False,
       analysisTimer = None,
       facialOverlay = False,
       faceCenter = (Num 0, Num 0),
       model = detector,
       isModelLoaded = detector,
       realLandmarks = [],
       animationFrameId = None,
       isTracking = False,
       faceBoundingBox = None,
       smoothedLandmarks = [],
       lastTriggerTime = 0,
       isProcessing = False,
       webcam = cam,
       timers = [],
       nextTimerId = 1,
       frameTasks = [],
       nextFrameId = 1 \<rparr>"

text \<open>How a method that can throw ends: it returns a value, or it throws; either way
  the assignments made so far stay.\<close>

datatype 'a completion = Returns 'a mirror | Throws error mirror

subsection \<open>Landmark tracker\<close>

text \<open>The callback of \<^verbatim>\<open>newLandmarks.map\<close> in \<^verbatim>\<open>smoothLandmarks\<close>, applied to
  \<^verbatim>\<open>oldPoint\<close> and \<^verbatim>\<open>newPoint\<close>.\<close>

definition smoothPoint :: "point \<Rightarrow> point \<Rightarrow> point" where
  "smoothPoint oldPoint newPoint =
     Point (p0 oldPoint + (p0 newPoint - p0 oldPoint) * Num landmarkSmoothingFactor)
           (p1 oldPoint + (p1 newPoint - p1 oldPoint) * Num landmarkSmoothingFactor)
           (p2 oldPoint + (p2 newPoint - p2 oldPoint) * Num landmarkSmoothingFactor)"

text \<open>The \<^verbatim>\<open>map\<close> itself: the point at each index is smoothed against
  \<^verbatim>\<open>this.smoothedLandmarks[index] || newPoint\<close>, which is the new point itself once the
  old list has run out.\<close>

fun smoothPoints :: "point list \<Rightarrow> point list \<Rightarrow> point list" where
  "smoothPoints olds [] = []"
| "smoothPoints [] (newPoint # news) = smoothPoint newPoint newPoint # smoothPoints [] news"
| "smoothPoints (oldPoint # olds) (newPoint # news) =
     smoothPoint oldPoint newPoint # smoothPoints olds news"

text \<open>\<^verbatim>\<open>smoothLandmarks(newLandmarks)\<close>.\<close>

definition smoothLandmarks :: "point list \<Rightarrow> mirror \<Rightarrow> mirror" where
  "smoothLandmarks newLandmarks s =
     (let s1 = (if smoothedLandmarks s = []
                then s\<lparr>smoothedLandmarks := newLandmarks\<rparr>
                else s\<lparr>smoothedLandmarks := smoothPoints (smoothedLandmarks s) newLandmarks\<rparr>)
      in s1\<lparr>realLandmarks := smoothedLandmarks s1\<rparr>)"

text \<open>\<^verbatim>\<open>createBasicLandmarksFromBoundingBox(boundingBox)\<close>; reading
  \<^verbatim>\<open>this.webcam.videoWidth\<close> of a missing webcam throws.\<close>

definition createBasicLandmarksFromBoundingBox :: "boundingBoxArg \<Rightarrow> mirror \<Rightarrow> unit completion" where
  "createBasicLandmarksFromBoundingBox boundingBox s =
     (case webcam s of
        None \<Rightarrow> Throws TypeError s
      | Some (videoWidth, videoHeight) \<Rightarrow>
          (let centerX = xCenter boundingBox * Num (real videoWidth);
               centerY = yCenter boundingBox * Num (real videoHeight);
               width = bbWidth boundingBox * Num (real videoWidth);
               height = bbHeight boundingBox * Num (real videoHeight);
               basicLandmarks =
                 [ Point (centerX - width * Num 0.2) (centerY - height * Num 0.15) (Num 0),
                   Point (centerX + width * Num 0.2) (centerY - height * Num 0.15) (Num 0),
                   Point centerX centerY (Num 0),
                   Point (centerX - width * Num 0.15) (centerY + height * Num 0.2) (Num 0),
                   Point (centerX + width * Num 0.15) (centerY + height * Num 0.2) (Num 0),
                   Point centerX (centerY + height * Num 0.35) (Num 0) ]
           in Returns () (s\<lparr>realLandmarks := basicLandmarks,
                              smoothedLandmarks := basicLandmarks\<rparr>)))"

text \<open>
  The callback of \<^verbatim>\<open>keypoints.map\<close> in \<^verbatim>\<open>extractLandmarks\<close>. \<^verbatim>\<open>x\<close> and \<^verbatim>\<open>y\<close>
  are assigned together or not at all, \<^verbatim>\<open>z\<close> starts at 0 and \<^verbatim>\<open>keypoint.z || 0\<close>
  keeps a number and replaces an absent one by 0. Reading a property of \<^verbatim>\<open>null\<close>
  throws. With \<^verbatim>\<open>x\<close> and \<^verbatim>\<open>y\<close> unassigned the range test is false and the
  undefined values are stored.
\<close>

definition toPixels :: "(nat \<times> nat) option \<Rightarrow> real \<Rightarrow> real \<Rightarrow> real \<Rightarrow> error + point" where
  "toPixels cam x y z =
     (if x \<le> 1 \<and> y \<le> 1 \<and> x \<ge> 0 \<and> y \<ge> 0
      then (case cam of
              None \<Rightarrow> Inl TypeError
            | Some (videoWidth, videoHeight) \<Rightarrow>
                Inr (Point (Num (x * real videoWidth)) (Num (y * real videoHeight)) (Num z)))
      else Inr (Point (Num x) (Num y) (Num z)))"

fun keypointToLandmark :: "(nat \<times> nat) option \<Rightarrow> keypoint \<Rightarrow> error + point" where
  "keypointToLandmark cam KPrimitive = Inr (Point NaN NaN (Num 0))"
| "keypointToLandmark cam KNull = Inl TypeError"
| "keypointToLandmark cam (KObject (Some x) (Some y) z) =
     toPixels cam x y (case z of None \<Rightarrow> 0 | Some v \<Rightarrow> v)"
| "keypointToLandmark cam (KObject _ _ _) = Inr (Point NaN NaN (Num 0))"
| "keypointToLandmark cam (KArray (x # y # rest)) =
     toPixels cam x y (case rest of [] \<Rightarrow> 0 | v # _ \<Rightarrow> v)"
| "keypointToLandmark cam (KArray _) = Inr (Point NaN NaN (Num 0))"

text \<open>\<^verbatim>\<open>keypoints.map(...)\<close>: the first throwing callback ends the map.\<close>

fun mapLandmarks :: "(nat \<times> nat) option \<Rightarrow> keypoint list \<Rightarrow> error + point list" where
  "mapLandmarks cam [] = Inr []"
| "mapLandmarks cam (k # ks) =
     (case keypointToLandmark cam k of
        Inl e \<Rightarrow> Inl e
      | Inr p \<Rightarrow> (case mapLandmarks cam ks of
                    Inl e \<Rightarrow> Inl e
                  | Inr ps \<Rightarrow> Inr (p # ps)))"

text \<open>The choice of the keypoint field at the head of \<^verbatim>\<open>extractLandmarks\<close>: the
  first of \<^verbatim>\<open>keypoints\<close>, \<^verbatim>\<open>landmarks\<close>, \<^verbatim>\<open>scaledMesh\<close> that is present and not
  empty.\<close>

definition present :: "keypoint list option \<Rightarrow> bool" where
  "present field = (case field of None \<Rightarrow> False | Some ks \<Rightarrow> length ks > 0)"

definition chosenKeypoints :: "face \<Rightarrow> keypoint list option" where
  "chosenKeypoints f =
     (if present (face_keypoints f) then face_keypoints f
      else if present (face_landmarks f) then face_landmarks f
      else if present (face_scaledMesh f) then face_scaledMesh f
      else None)"

text \<open>\<^verbatim>\<open>extractLandmarks(face)\<close>.\<close>

definition extractLandmarks :: "face \<Rightarrow> mirror \<Rightarrow> unit completion" where
  "extractLandmarks f s =
     (case chosenKeypoints f of
        None \<Rightarrow>
          (case face_boundingBox f of
             Some boundingBox \<Rightarrow> createBasicLandmarksFromBoundingBox boundingBox s
           | None \<Rightarrow> Returns () s)
      | Some keypoints \<Rightarrow>
          (case mapLandmarks (webcam s) keypoints of
             Inl e \<Rightarrow> Throws e s
           | Inr newLandmarks \<Rightarrow>
               (if length (realLandmarks s) = 0
                then Returns () (s\<lparr>realLandmarks := newLandmarks,
                                   smoothedLandmarks := newLandmarks\<rparr>)
                else Returns () (smoothLandmarks newLandmarks s))))"

text \<open>\<^verbatim>\<open>updateFaceBoundingBox(face)\<close>; the face is only logged.\<close>

definition updateFaceBoundingBox :: "face \<Rightarrow> mirror \<Rightarrow> mirror" where
  "updateFaceBoundingBox f s =
     (if length (realLandmarks s) > 0
      then (let xs = map p0 (realLandmarks s);
                ys = map p1 (realLandmarks s);
                minX = mathMin xs;
                maxX = mathMax xs;
                minY = mathMin ys;
                maxY = mathMax ys;
                newBox = \<lparr> box_x = (minX + maxX) / Num 2,
                           box_y = (minY + maxY) / Num 2,
                           box_width = maxX - minX,
                           box_height = maxY - minY \<rparr>;
                smoothingFactor = Num 0.3;
                box = (case faceBoundingBox s of
                         None \<Rightarrow> newBox
                       | Some b \<Rightarrow>
                           \<lparr> box_x = box_x b + (box_x newBox - box_x b) * smoothingFactor,
                             box_y = box_y b + (box_y newBox - box_y b) * smoothingFactor,
                             box_width =
                               box_width b + (box_width newBox - box_width b) * smoothingFactor,
                             box_height =
                               box_height b + (box_height newBox - box_height b) * smoothingFactor \<rparr>)
            in s\<lparr>faceBoundingBox := Some box, faceCenter := (box_x box, box_y box)\<rparr>)
      else s)"

text \<open>
  \<^verbatim>\<open>performContinuousFacialDetection()\<close> suspends at
  \<^verbatim>\<open>await this.model.estimateFaces(...)\<close>, so it is modelled in two pieces.
  \<open>detectorIsCalled\<close> is the test before the call. \<open>performContinuousFacialDetection\<close>
  is the rest of the body, run on the state the mirror has when the promise settles:
  everything is inside \<^verbatim>\<open>try\<close> and the \<^verbatim>\<open>catch\<close> only logs, so a rejected
  promise and a throw of \<^verbatim>\<open>extractLandmarks\<close> both end in \<^verbatim>\<open>return false\<close>.
  When the test fails the method returns \<^verbatim>\<open>false\<close> without calling the detector.
\<close>

definition webcamReady :: "mirror \<Rightarrow> bool" where
  "webcamReady s =
     (case webcam s of None \<Rightarrow> False
      | Some (videoWidth, videoHeight) \<Rightarrow> videoWidth > 0 \<and> videoHeight > 0)"

definition detectorIsCalled :: "mirror \<Rightarrow> bool" where
  "detectorIsCalled s = (isModelLoaded s \<and> model s \<and> webcamReady s)"

definition performContinuousFacialDetection :: "detection \<Rightarrow> mirror \<Rightarrow> bool \<times> mirror" where
  "performContinuousFacialDetection det s =
     (case det of
        Rejects \<Rightarrow> (False, s)
      | Resolves faces \<Rightarrow>
          (case faces of
             [] \<Rightarrow> (False, s)
           | f # _ \<Rightarrow>
               (let s1 = updateFaceBoundingBox f s
                in case extractLandmarks f s1 of
                     Returns _ s2 \<Rightarrow> (True, s2)
                   | Throws e s2 \<Rightarrow> (False, s2))))"

text \<open>\<^verbatim>\<open>performFallbackFaceDetection()\<close>; \<open>now\<close> is the value of
  \<^verbatim>\<open>Date.now()\<close>.\<close>

definition performFallbackFaceDetection :: "int \<Rightarrow> mirror \<Rightarrow> bool completion" where
  "performFallbackFaceDetection now s =
     (case webcam s of
        None \<Rightarrow> Returns False s
      | Some (videoWidth, videoHeight) \<Rightarrow>
          (if videoWidth = 0 \<or> videoHeight = 0 then Returns False s
           else
             (let centerX = real videoWidth / 2;
                  centerY = real videoHeight / 2;
                  faceWidth = min (real videoWidth) (real videoHeight) * 0.4;
                  faceHeight = faceWidth * 1.2;
                  time = real_of_int now * 0.001;
                  jitterX = sin (time * 0.5) * 10;
                  jitterY = cos (time * 0.3) * 5;
                  box = \<lparr> box_x = Num (centerX + jitterX),
                          box_y = Num (centerY + jitterY),
                          box_width = Num (faceWidth + sin (time * 0.2) * 5),
                          box_height = Num (faceHeight + cos (time * 0.15) * 8) \<rparr>;
                  s1 = s\<lparr>faceBoundingBox := Some box\<rparr>
              in case createBasicLandmarksFromBoundingBox
                        \<lparr> xCenter = box_x box / Num (real videoWidth),
                          yCenter = box_y box / Num (real videoHeight),
                          bbWidth = box_width box / Num (real videoWidth),
                          bbHeight = box_height box / Num (real videoHeight) \<rparr> s1 of
                   Returns _ s2 \<Rightarrow> Returns True s2
                 | Throws e s2 \<Rightarrow> Throws e s2)))"

text \<open>\<^verbatim>\<open>setupFacialOverlayCanvas()\<close>, with the \<^verbatim>\<open>.mirror-surface\<close> element of the
  page present: the canvas is created, then sized from the webcam.\<close>

definition setupFacialOverlayCanvas :: "mirror \<Rightarrow> unit completion" where
  "setupFacialOverlayCanvas s =
     (let s1 = s\<lparr>facialOverlay := True\<rparr>
      in case webcam s1 of
           None \<Rightarrow> Throws TypeError s1
         | Some (videoWidth, videoHeight) \<Rightarrow>
             Returns () (s1\<lparr>faceCenter := (Num (real videoWidth / 2),
                                             Num (real videoHeight / 2))\<rparr>))"

text \<open>
  The drawing methods, as far as they can throw; \<open>None\<close> means the method returned.
  \<^verbatim>\<open>drawFaceBoundingBox\<close> and \<^verbatim>\<open>drawMeasurementLabels\<close> return at once with
  fewer than 468 landmarks and otherwise read \<^verbatim>\<open>this.facialOverlay.width\<close>, which
  throws when the overlay has been removed. \<^verbatim>\<open>drawMeasurementLabels\<close> then computes
  bar values from landmarks, random draws and its own smoothed metrics and passes them to
  \<^verbatim>\<open>createLinearGradient\<close>, which throws on a value that is no finite number; those
  values are not modelled, and \<open>canvasThrows\<close> says whether that call throws.
  \<^verbatim>\<open>drawScanningEffect\<close> reads \<^verbatim>\<open>this.facialOverlay.height\<close> first. The
  \<^verbatim>\<open>drawFacialLandmarks\<close> in force is the second method of that name, a loop over
  \<^verbatim>\<open>this.landmarks\<close>, which is never assigned after the constructor made it empty;
  \<^verbatim>\<open>drawMeasurementLines\<close> returns at once. Neither can throw.
\<close>

definition drawFaceBoundingBox :: "mirror \<Rightarrow> error option" where
  "drawFaceBoundingBox s =
     (if length (realLandmarks s) < 468 then None
      else if \<not> facialOverlay s then Some TypeError
      else None)"

definition drawMeasurementLabels :: "bool \<Rightarrow> mirror \<Rightarrow> error option" where
  "drawMeasurementLabels canvasThrows s =
     (if faceBoundingBox s = None \<or> length (realLandmarks s) < 468 then None
      else if \<not> facialOverlay s then Some TypeError
      else if canvasThrows then Some TypeError
      else None)"

definition drawScanningEffect :: "mirror \<Rightarrow> error option" where
  "drawScanningEffect s = (if \<not> facialOverlay s then Some TypeError else None)"

text \<open>The four drawing calls made for a tracked face, in both branches:
  \<^verbatim>\<open>drawFaceBoundingBox\<close>, \<^verbatim>\<open>drawFacialLandmarks\<close>, \<^verbatim>\<open>drawMeasurementLines\<close>,
  \<^verbatim>\<open>drawMeasurementLabels\<close>.\<close>

definition drawTrackedFace :: "bool \<Rightarrow> mirror \<Rightarrow> error option" where
  "drawTrackedFace canvasThrows s =
     (case drawFaceBoundingBox s of
        Some e \<Rightarrow> Some e
      | None \<Rightarrow> drawMeasurementLabels canvasThrows s)"

text \<open>What one call of \<^verbatim>\<open>updateFacialAnalysisOverlay\<close> drew.\<close>

datatype drawn = Skipped | DrewDetected | DrewFallback | DrewScanning

text \<open>What the host supplies to one piece of a frame: the value of \<^verbatim>\<open>Date.now()\<close>,
  how the detector's promise settles, and whether a canvas call of
  \<^verbatim>\<open>drawMeasurementLabels\<close> throws.\<close>

record frameInput =
  clock :: int
  settles :: detection
  canvasThrows :: bool

text \<open>
  \<^verbatim>\<open>updateFacialAnalysisOverlay()\<close> from \<^verbatim>\<open>const faceDetected = await ...\<close> on:
  the detected branch draws; otherwise the fallback runs and draws, or the scanning
  effect is drawn.
\<close>

definition finishFacialAnalysisOverlay :: "frameInput \<Rightarrow> bool \<Rightarrow> mirror \<Rightarrow> drawn completion" where
  "finishFacialAnalysisOverlay inp faceDetected s1 =
     (if faceDetected \<and> faceBoundingBox s1 \<noteq> None
      then (case drawTrackedFace (canvasThrows inp) s1 of
              Some e \<Rightarrow> Throws e s1
            | None \<Rightarrow> Returns DrewDetected s1)
      else
        (case performFallbackFaceDetection (clock inp) s1 of
           Throws e s2 \<Rightarrow> Throws e s2
         | Returns fallbackDetected s2 \<Rightarrow>
             (if fallbackDetected
              then (case drawTrackedFace (canvasThrows inp) s2 of
                      Some e \<Rightarrow> Throws e s2
                    | None \<Rightarrow> Returns DrewFallback s2)
              else (case drawScanningEffect s2 of
                      Some e \<Rightarrow> Throws e s2
                    | None \<Rightarrow> Returns DrewScanning s2))))"

text \<open>A call of \<^verbatim>\<open>updateFacialAnalysisOverlay\<close> either is suspended at the
  detector call, with the state it leaves, or has finished.\<close>

datatype progress = Suspended mirror | Finished "drawn completion"

text \<open>
  \<^verbatim>\<open>updateFacialAnalysisOverlay()\<close> up to the detector call. When the detector is not
  called, nothing else can run before the method finishes, so it finishes here.
\<close>

definition updateFacialAnalysisOverlay :: "frameInput \<Rightarrow> mirror \<Rightarrow> progress" where
  "updateFacialAnalysisOverlay inp s =
     (case (if \<not> facialOverlay s then setupFacialOverlayCanvas s else Returns () s) of
        Throws e s0 \<Rightarrow> Finished (Throws e s0)
      | Returns _ s0 \<Rightarrow>
          (if \<not> isAnalyzing s0 then Finished (Returns Skipped s0)
           else if detectorIsCalled s0 then Suspended s0
           else Finished (finishFacialAnalysisOverlay inp False s0)))"

text \<open>The suspended call continues when the detector's promise settles, on the state
  the mirror has then.\<close>

definition resumeFacialAnalysisOverlay :: "frameInput \<Rightarrow> mirror \<Rightarrow> drawn completion" where
  "resumeFacialAnalysisOverlay inp s =
     (case performContinuousFacialDetection (settles inp) s of
        (faceDetected, s1) \<Rightarrow> finishFacialAnalysisOverlay inp faceDetected s1)"

text \<open>\<^verbatim>\<open>animate()\<close>: with \<^verbatim>\<open>isTracking\<close> set it requests the next animation frame and
  keeps the handle; \<^verbatim>\<open>cancelAnimationFrame(id)\<close> removes a request that has not run.\<close>

definition animate :: "mirror \<Rightarrow> mirror" where
  "animate s =
     (if \<not> isTracking s then s
      else s\<lparr>animationFrameId := Some (nextFrameId s),
              frameTasks := frameTasks s @ [FrameRequest (nextFrameId s)],
              nextFrameId := nextFrameId s + 1\<rparr>)"

definition cancelAnimationFrame :: "nat \<Rightarrow> frameTask list \<Rightarrow> frameTask list" where
  "cancelAnimationFrame ident ts = filter (\<lambda>t. t \<noteq> FrameRequest ident) ts"

text \<open>The continuation \<^verbatim>\<open>.then(() => this.animate())\<close> of the frame callback: it runs
  only when the update has not thrown.\<close>

fun thenAnimate :: "drawn completion \<Rightarrow> mirror" where
  "thenAnimate (Returns _ s) = animate s"
| "thenAnimate (Throws _ s) = s"

text \<open>
  The host runs the piece at position \<open>k\<close> of \<open>frameTasks\<close>: a requested frame starts
  an update, a pending detection settles and the update continues. The first component
  is the update that finished in this piece, if one did.
\<close>

definition runFrame :: "frameInput \<Rightarrow> nat \<Rightarrow> mirror \<Rightarrow> drawn completion option \<times> mirror" where
  "runFrame inp k s =
     (if k < length (frameTasks s)
      then (let s0 = s\<lparr>frameTasks := take k (frameTasks s) @ drop (Suc k) (frameTasks s)\<rparr>
            in case frameTasks s ! k of
                 FrameRequest ident \<Rightarrow>
                   (case updateFacialAnalysisOverlay inp s0 of
                      Suspended s1 \<Rightarrow>
                        (None, s1\<lparr>frameTasks := frameTasks s1 @ [DetectionPending]\<rparr>)
                    | Finished c \<Rightarrow> (Some c, thenAnimate c))
               | DetectionPending \<Rightarrow>
                   (let c = resumeFacialAnalysisOverlay inp s0
                    in (Some c, thenAnimate c)))
      else (None, s))"

subsection \<open>Challenge controller\<close>

text \<open>\<^verbatim>\<open>clearInterval(id)\<close> on the timer queue.\<close>

definition clearInterval :: "nat \<Rightarrow> timer list \<Rightarrow> timer list" where
  "clearInterval ident ts =
     filter (\<lambda>t. case t of AnalysisInterval i _ \<Rightarrow> i \<noteq> ident | _ \<Rightarrow> True) ts"

text \<open>\<^verbatim>\<open>startOverlayUpdates()\<close> and \<^verbatim>\<open>stopOverlayUpdates()\<close>;
  \<^verbatim>\<open>if (this.animationFrameId)\<close> is false for \<^verbatim>\<open>null\<close> and for the number 0.\<close>

definition startOverlayUpdates :: "mirror \<Rightarrow> mirror" where
  "startOverlayUpdates s = animate (s\<lparr>isTracking := True\<rparr>)"

definition stopOverlayUpdates :: "mirror \<Rightarrow> mirror" where
  "stopOverlayUpdates s =
     (let s1 = s\<lparr>isTracking := False\<rparr>;
          s2 = (case animationFrameId s1 of
                  None \<Rightarrow> s1
                | Some ident \<Rightarrow>
                    (if ident \<noteq> 0
                     then s1\<lparr>frameTasks := cancelAnimationFrame ident (frameTasks s1),
                             animationFrameId := None\<rparr>
                     else s1))
      in s2\<lparr>facialOverlay := False\<rparr>)"

text \<open>\<^verbatim>\<open>createFacialAnalysisOverlay()\<close>.\<close>

definition createFacialAnalysisOverlay :: "mirror \<Rightarrow> unit completion" where
  "createFacialAnalysisOverlay s =
     (if \<not> facialOverlay s then setupFacialOverlayCanvas s else Returns () s)"

text \<open>\<^verbatim>\<open>startFakeAnalysis()\<close>: \<^verbatim>\<open>setInterval\<close> queues a new interval with
  \<^verbatim>\<open>progress = 0\<close> and its identifier overwrites \<^verbatim>\<open>this.analysisTimer\<close>.\<close>

definition startFakeAnalysis :: "mirror \<Rightarrow> unit completion" where
  "startFakeAnalysis s =
     (let s1 = s\<lparr>isAnalyzing := True\<rparr>
      in case createFacialAnalysisOverlay s1 of
           Throws e s2 \<Rightarrow> Throws e s2
         | Returns _ s2 \<Rightarrow>
             (let s3 = startOverlayUpdates s2
              in Returns () (s3\<lparr>analysisTimer := Some (nextTimerId s3),
                                 timers := timers s3 @ [AnalysisInterval (nextTimerId s3) 0],
                                 nextTimerId := nextTimerId s3 + 1\<rparr>)))"

text \<open>The random draws of one \<^verbatim>\<open>generateSmileScore\<close> call: the sub-metrics record
  of its first branch and the \<^verbatim>\<open>Math.random()\<close> of the variance line.\<close>

record scoreInput =
  metricsDrawn :: subMetrics
  varianceDraw :: real

text \<open>\<^verbatim>\<open>triggerSmileVerification()\<close>: the score is computed with the level of the
  moment of the call, stored, and the analysis starts.\<close>

definition triggerSmileVerification :: "scoreInput \<Rightarrow> mirror \<Rightarrow> unit completion" where
  "triggerSmileVerification inp s =
     (let scoreData = generateSmileScore (isModelLoaded s \<and> length (realLandmarks s) > 0)
                        (metricsDrawn inp) (varianceDraw inp) (smileLevel s);
          s1 = s\<lparr>currentSmileScoreData := Some scoreData\<rparr>
      in startFakeAnalysis s1)"

text \<open>\<^verbatim>\<open>updateHumanityLevel()\<close>: apart from text, it queues the failure page when
  the percentage has reached 0.\<close>

definition updateHumanityLevel :: "mirror \<Rightarrow> mirror" where
  "updateHumanityLevel s =
     (if humanityPercentage s \<le> 0 then s\<lparr>timers := timers s @ [Failure]\<rparr> else s)"

text \<open>\<^verbatim>\<open>processHumanClaim()\<close>.\<close>

definition processHumanClaim :: "mirror \<Rightarrow> mirror" where
  "processHumanClaim s =
     (if smileLevel s \<ge> maxSmileLevel then s
      else if smileLevel s = 0 then s\<lparr>timers := timers s @ [IntroPrompt]\<rparr>
      else
        (let s1 = s\<lparr>smileLevel := smileLevel s + 1\<rparr>;
             s2 = s1\<lparr>humanityPercentage := max 0 (100 - (int (smileLevel s1) * 25))\<rparr>;
             s3 = updateHumanityLevel s2
         in s3\<lparr>timers := timers s3 @ [Verify]\<rparr>))"

text \<open>\<^verbatim>\<open>showFailurePage()\<close>: it stops listening.\<close>

definition showFailurePage :: "mirror \<Rightarrow> mirror" where
  "showFailurePage s = s\<lparr>isListening := False\<rparr>"

text \<open>\<^verbatim>\<open>resetMirror()\<close>; \<^verbatim>\<open>if (this.analysisTimer)\<close> is false for \<^verbatim>\<open>null\<close> and for
  the number 0. The restart of the speech recogniser at the end is taken to succeed.\<close>

definition resetMirror :: "mirror \<Rightarrow> mirror" where
  "resetMirror s =
     (let s1 = s\<lparr>smileLevel := 0,
                  humanityPercentage := 100,
                  lastTriggerTime := 0,
                  isProcessing := False,
                  isAnalyzing := False\<rparr>;
          s2 = (case analysisTimer s1 of
                  None \<Rightarrow> s1
                | Some ident \<Rightarrow>
                    (if ident \<noteq> 0 then s1\<lparr>timers := clearInterval ident (timers s1)\<rparr> else s1));
          s3 = stopOverlayUpdates s2
      in if recognition s3 then s3\<lparr>isListening := True\<rparr> else s3)"

text \<open>
  The callback of the interval at position \<open>k\<close> of the queue: \<^verbatim>\<open>progress\<close> grows by
  14.3; from 100 on it clears the interval named by \<^verbatim>\<open>this.analysisTimer\<close>, stops the
  overlay updates and shows the result (text only).
\<close>

definition analysisTick :: "nat \<Rightarrow> nat \<Rightarrow> real \<Rightarrow> mirror \<Rightarrow> mirror" where
  "analysisTick k ident progress s =
     (let progress1 = progress + 14.3;
          s1 = s\<lparr>timers := (timers s)[k := AnalysisInterval ident progress1]\<rparr>
      in if progress1 \<ge> 100
         then (let s2 = (case analysisTimer s1 of
                           None \<Rightarrow> s1
                         | Some t \<Rightarrow> s1\<lparr>timers := clearInterval t (timers s1)\<rparr>)
               in stopOverlayUpdates s2)
         else s1)"

text \<open>The state a callback leaves behind, whether it returned or threw.\<close>

fun stateOf :: "'a completion \<Rightarrow> mirror" where
  "stateOf (Returns _ s) = s"
| "stateOf (Throws _ s) = s"

text \<open>
  The host runs the pending callback at position \<open>k\<close> of the queue. A timeout leaves the
  queue when it runs. \<open>IntroMeasure\<close> is the inner callback of the first claim: it
  raises the level itself. A browser runs callbacks in the order in which they fall due;
  the model lets any pending callback run next, which allows that order among others.
\<close>

definition fire :: "scoreInput \<Rightarrow> nat \<Rightarrow> mirror \<Rightarrow> mirror" where
  "fire inp k s =
     (if k < length (timers s)
      then (let s0 = s\<lparr>timers := take k (timers s) @ drop (Suc k) (timers s)\<rparr>
            in case timers s ! k of
                 IntroPrompt \<Rightarrow> s0\<lparr>timers := timers s0 @ [IntroMeasure]\<rparr>
               | IntroMeasure \<Rightarrow>
                   (let s1 = s0\<lparr>smileLevel := smileLevel s0 + 1\<rparr>;
                        s2 = s1\<lparr>humanityPercentage := max 0 (100 - (int (smileLevel s1) * 25))\<rparr>;
                        s3 = updateHumanityLevel s2
                    in stateOf (triggerSmileVerification inp s3))
               | Verify \<Rightarrow> stateOf (triggerSmileVerification inp s0)
               | Failure \<Rightarrow> showFailurePage s0
               | AnalysisInterval ident progress \<Rightarrow> analysisTick k ident progress s)
      else s)"

text \<open>What can happen to the mirror: the user claims to be human, presses reset, the
  host runs a pending timer callback, or the host runs a pending piece of the animation
  loop.\<close>

datatype event = Claim | Reset | Fire nat scoreInput | Frame nat frameInput

fun step :: "event \<Rightarrow> mirror \<Rightarrow> mirror" where
  "step Claim s = processHumanClaim s"
| "step Reset s = resetMirror s"
| "step (Fire k inp) s = fire inp k s"
| "step (Frame k inp) s = snd (runFrame inp k s)"

fun run :: "event list \<Rightarrow> mirror \<Rightarrow> mirror" where
  "run [] s = s"
| "run (e # es) s = run es (step e s)"

text \<open>The updates that finish in the course of a run, in order, each as it ended.\<close>

fun finished :: "event \<Rightarrow> mirror \<Rightarrow> drawn completion list" where
  "finished (Frame k inp) s = (case fst (runFrame inp k s) of None \<Rightarrow> [] | Some c \<Rightarrow> [c])"
| "finished _ s = []"

fun outcomes :: "event list \<Rightarrow> mirror \<Rightarrow> drawn completion list" where
  "outcomes [] s = []"
| "outcomes (e # es) s = finished e s @ outcomes es (step e s)"

text \<open>The sample draws used in concrete runs: the sub-metrics of the
  specification's scenario and a variance draw in the middle of the range.\<close>

definition sampleInput :: scoreInput where
  "sampleInput =
     \<lparr> metricsDrawn = \<lparr> mouthCurvature = 60, eyeSymmetry = 70, smileIntensity = 50,
                        mouthWidth = 80, facialTension = 40 \<rparr>,
       varianceDraw = 0.5 \<rparr>"

text \<open>The formula of the specification for the humanity percentage of the smile
  gate.\<close>

definition humanityFormula :: "mirror \<Rightarrow> bool" where
  "humanityFormula s = (humanityPercentage s = max 0 (100 - int (smileLevel s) * 25))"

text \<open>The tracking loop is switched on only inside an analysis.\<close>

definition trackingInAnalysis :: "mirror \<Rightarrow> bool" where
  "trackingInAnalysis s = (isTracking s \<longrightarrow> isAnalyzing s)"

subsection \<open>Notions used to state the tracker's properties\<close>

text \<open>A landmark all of whose coordinates are numbers, and the landmark built from
  three numbers.\<close>

definition numericPoint :: "point \<Rightarrow> bool" where
  "numericPoint p = (p0 p \<noteq> NaN \<and> p1 p \<noteq> NaN \<and> p2 p \<noteq> NaN)"

definition numPoint :: "real \<times> real \<times> real \<Rightarrow> point" where
  "numPoint c = Point (Num (fst c)) (Num (fst (snd c))) (Num (snd (snd c)))"

definition numericLandmarks :: "mirror \<Rightarrow> bool" where
  "numericLandmarks s =
     (list_all numericPoint (realLandmarks s) \<and> list_all numericPoint (smoothedLandmarks s))"

text \<open>In the words of the specification: the box of the minimal and maximal x and y
  of a list of points, as centre and extents.\<close>

definition spec_extentsBox :: "(real \<times> real \<times> real) list \<Rightarrow> faceBox" where
  "spec_extentsBox pts =
     (let xs = set (map fst pts); ys = set (map (\<lambda>c. fst (snd c)) pts)
      in \<lparr> box_x = Num ((Min xs + Max xs) / 2),
           box_y = Num ((Min ys + Max ys) / 2),
           box_width = Num (Max xs - Min xs),
           box_height = Num (Max ys - Min ys) \<rparr>)"

text \<open>The exponential filter of the specification with the box factor 0.3, applied to
  each field of a box.\<close>

definition spec_smoothBox :: "faceBox \<Rightarrow> faceBox \<Rightarrow> faceBox" where
  "spec_smoothBox old target =
     \<lparr> box_x = box_x old + (box_x target - box_x old) * Num 0.3,
       box_y = box_y old + (box_y target - box_y old) * Num 0.3,
       box_width = box_width old + (box_width target - box_width old) * Num 0.3,
       box_height = box_height old + (box_height target - box_height old) * Num 0.3 \<rparr>"

text \<open>A keypoint that carries an x and a y coordinate, in object form or in positional
  form, and one that carries no z.\<close>

fun carriesXY :: "keypoint \<Rightarrow> bool" where
  "carriesXY (KObject (Some x) (Some y) z) = True"
| "carriesXY (KArray (x # y # rest)) = True"
| "carriesXY _ = False"

fun lacksZ :: "keypoint \<Rightarrow> bool" where
  "lacksZ (KObject x y None) = True"
| "lacksZ (KArray [x, y]) = True"
| "lacksZ _ = False"

text \<open>A face whose chosen keypoints all carry x and y or, when it has no keypoints,
  whose bounding box (if any) has four numbers; a detector result whose first face, the
  only one read, is such a face.\<close>

definition numericArg :: "boundingBoxArg \<Rightarrow> bool" where
  "numericArg b = (xCenter b \<noteq> NaN \<and> yCenter b \<noteq> NaN \<and> bbWidth b \<noteq> NaN \<and> bbHeight b \<noteq> NaN)"

definition wellFormedFace :: "face \<Rightarrow> bool" where
  "wellFormedFace f =
     (case chosenKeypoints f of
        Some keypoints \<Rightarrow> list_all carriesXY keypoints
      | None \<Rightarrow> (case face_boundingBox f of Some b \<Rightarrow> numericArg b | None \<Rightarrow> True))"

definition wellFormedDetection :: "detection \<Rightarrow> bool" where
  "wellFormedDetection det =
     (case det of
        Rejects \<Rightarrow> True
      | Resolves faces \<Rightarrow> (case faces of [] \<Rightarrow> True | f # _ \<Rightarrow> wellFormedFace f))"




text \<open>Landmarks are stored only together with a face bounding box.\<close>

definition boxWithLandmarks :: "mirror \<Rightarrow> bool" where
  "boxWithLandmarks s = (realLandmarks s \<noteq> [] \<longrightarrow> faceBoundingBox s \<noteq> None)"

text \<open>An event that is not a frame piece, or a frame piece whose detector result is
  well formed.\<close>

fun wellFormedEvent :: "event \<Rightarrow> bool" where
  "wellFormedEvent (Frame k inp) = wellFormedDetection (settles inp)"
| "wellFormedEvent _ = True"


fun drewFallback :: "drawn completion \<Rightarrow> bool" where
  "drewFallback (Returns d s) = (d = DrewFallback)"
| "drewFallback (Throws e s) = False"

text \<open>The fields that no piece of a frame writes.\<close>

definition sessionFields ::
  "mirror \<Rightarrow> nat \<times> int \<times> bool \<times> bool \<times> timer list \<times> (nat \<times> nat) option \<times> bool \<times> bool" where
  "sessionFields s =
     (smileLevel s, humanityPercentage s, isAnalyzing s, isTracking s, timers s, webcam s,
      isModelLoaded s, model s)"

text \<open>A face whose landmark extraction does not throw: none of its chosen keypoints
  is \<^verbatim>\<open>null\<close>.\<close>

definition extractable :: "face \<Rightarrow> bool" where
  "extractable f =
     (case chosenKeypoints f of Some keypoints \<Rightarrow> KNull \<notin> set keypoints | None \<Rightarrow> True)"

text \<open>The value a method returned, if it returned.\<close>

fun returned :: "'a completion \<Rightarrow> 'a option" where
  "returned (Returns v _) = Some v"
| "returned (Throws _ _) = None"

text \<open>Concrete inputs for the concrete runs: a face with two keypoints in object form,
  and the mirror in the middle of its first analysis, with a 640 by 480 video and a loaded
  detector.\<close>

definition sampleFace :: face where
  "sampleFace =
     \<lparr> face_keypoints = Some [KObject (Some 100) (Some 100) None,
                              KObject (Some 200) (Some 300) None],
       face_landmarks = None,
       face_scaledMesh = None,
       face_boundingBox = None \<rparr>"

definition analysingMirror :: mirror where
  "analysingMirror =
     run [Claim, Fire 0 sampleInput, Fire 0 sampleInput] (newMirror (Some (640, 480)) True False)"

text \<open>Frame inputs: the detector resolves with no face at clock 0; it resolves with
  the sample face at clock 33; it resolves with the sample face moved by 10 in x at
  clock 66; it resolves with a face whose first keypoint has no coordinates.\<close>

definition noFaceAt0 :: frameInput where
  "noFaceAt0 = \<lparr> clock = 0, settles = Resolves [], canvasThrows = False \<rparr>"

definition sampleFaceAt33 :: frameInput where
  "sampleFaceAt33 = \<lparr> clock = 33, settles = Resolves [sampleFace], canvasThrows = False \<rparr>"

definition movedFace :: face where
  "movedFace =
     \<lparr> face_keypoints = Some [KObject (Some 110) (Some 100) None,
                              KObject (Some 210) (Some 300) None],
       face_landmarks = None,
       face_scaledMesh = None,
       face_boundingBox = None \<rparr>"

definition movedFaceAt66 :: frameInput where
  "movedFaceAt66 = \<lparr> clock = 66, settles = Resolves [movedFace], canvasThrows = False \<rparr>"

definition malformedFace :: face where
  "malformedFace =
     \<lparr> face_keypoints = Some [KObject None None None,
                              KObject (Some 200) (Some 300) None],
       face_landmarks = None,
       face_scaledMesh = None,
       face_boundingBox = None \<rparr>"

definition malformedFaceAt33 :: frameInput where
  "malformedFaceAt33 = \<lparr> clock = 33, settles = Resolves [malformedFace], canvasThrows = False \<rparr>"

text \<open>Two states of a tracking session. In \<open>fallbackPending\<close> the first frame of the
  analysis has started, its detector promise has resolved with no face and the frame has
  been drawn in fallback mode at clock 0; the second frame has started and its detector
  promise is pending. In \<open>detectedPending\<close> that promise has resolved with the sample
  face, the second frame has been drawn in detected mode, and the third frame has started
  and its detector promise is pending.\<close>

definition fallbackPending :: mirror where
  "fallbackPending =
     run [Frame 0 noFaceAt0, Frame 0 noFaceAt0, Frame 0 noFaceAt0] analysingMirror"

definition detectedPending :: mirror where
  "detectedPending = run [Frame 0 sampleFaceAt33, Frame 0 sampleFaceAt33] fallbackPending"
subsection \<open>Scoring: results\<close>

lemma toFixed1_bounds:
  assumes "5 \<le> x" and "x \<le> 79"
  shows "5 \<le> toFixed1 x \<and> toFixed1 x \<le> 79"
proof -
  have lo: "(50::int) \<le> round (x * 10)"
    using assms(1) round_mono [of "50" "x * 10"] by simp
  have hi: "round (x * 10) \<le> (790::int)"
    using assms(2) round_mono [of "x * 10" "790"] by simp
  have "real_of_int 50 \<le> real_of_int (round (x * 10))"
    using lo of_int_le_iff by blast
  moreover have "real_of_int (round (x * 10)) \<le> real_of_int 790"
    using hi of_int_le_iff by blast
  ultimately show ?thesis
    by (simp add: toFixed1_def)
qed

text \<open>
  Claim C1. Whatever the level (so in particular for the levels 1, 2 and 3), whatever the
  five sub-metrics, whichever of the two score branches is taken and whatever the random
  draw, the score returned by \<^verbatim>\<open>generateSmileScore\<close> lies between 5 and 79 and is
  therefore strictly below the passing threshold 80.
\<close>

theorem generateSmileScore_never_passes:
  "5 \<le> score (generateSmileScore useReal metrics rnd level)
   \<and> score (generateSmileScore useReal metrics rnd level) \<le> 79
   \<and> score (generateSmileScore useReal metrics rnd level) < 80"
proof -
  define b where "b = (if useReal then calculateRealisticScore metrics level
                       else calculateSimulatedScore metrics level) + (rnd - 0.5) * 6"
  have eq: "score (generateSmileScore useReal metrics rnd level) = toFixed1 (max 5 (min 79 b))"
    by (simp add: generateSmileScore_def Let_def b_def)
  have "5 \<le> max 5 (min 79 b)" and "max 5 (min 79 b) \<le> 79"
    by simp_all
  then have "5 \<le> toFixed1 (max 5 (min 79 b)) \<and> toFixed1 (max 5 (min 79 b)) \<le> 79"
    by (rule toFixed1_bounds)
  then show ?thesis
    unfolding eq by simp
qed

lemma weighted_sum_realistic:
  "calculateRealisticScore m level =
     (if level = 1 then max (min (spec_weightedBase m) 75) 55
      else if level = 2 then max (min (spec_weightedBase m) 65) 40
      else if level = 3 then max (min (spec_weightedBase m) 45) 25
      else spec_weightedBase m)"
  by (simp add: calculateRealisticScore_def spec_weightedBase_def Let_def algebra_simps)

lemma weighted_sum_simulated:
  "calculateSimulatedScore m level = calculateRealisticScore m level"
  by (simp add: calculateSimulatedScore_def calculateRealisticScore_def)

lemma spec_clamp_max_min: "lo \<le> hi \<Longrightarrow> spec_clamp lo hi x = max (min x hi) lo"
  by (simp add: spec_clamp_def max_def min_def)

text \<open>
  Claim C2. For every sub-metrics record, both score functions compute the weighted sum
  0.3 mouthCurvature + 0.2 eyeSymmetry + 0.3 smileIntensity + 0.1 mouthWidth +
  0.1 (100 - facialTension) and clamp it into the band of the level: [55,75] at level 1,
  [40,65] at level 2, [25,45] at level 3 (any other level returns the weighted sum
  itself). Both ends of the band fall strictly as the level rises.
\<close>

theorem base_score_weighted_and_banded:
  "calculateRealisticScore m level =
     (if level = 1 \<or> level = 2 \<or> level = 3
      then spec_clamp (spec_bandLow level) (spec_bandHigh level) (spec_weightedBase m)
      else spec_weightedBase m)
   \<and> calculateSimulatedScore m level =
     (if level = 1 \<or> level = 2 \<or> level = 3
      then spec_clamp (spec_bandLow level) (spec_bandHigh level) (spec_weightedBase m)
      else spec_weightedBase m)
   \<and> 55 \<le> calculateRealisticScore m 1 \<and> calculateRealisticScore m 1 \<le> 75
   \<and> 40 \<le> calculateRealisticScore m 2 \<and> calculateRealisticScore m 2 \<le> 65
   \<and> 25 \<le> calculateRealisticScore m 3 \<and> calculateRealisticScore m 3 \<le> 45
   \<and> spec_bandLow 1 = 55 \<and> spec_bandHigh 1 = 75
   \<and> spec_bandLow 2 = 40 \<and> spec_bandHigh 2 = 65
   \<and> spec_bandLow 3 = 25 \<and> spec_bandHigh 3 = 45
   \<and> spec_bandLow 3 < spec_bandLow 2 \<and> spec_bandLow 2 < spec_bandLow 1
   \<and> spec_bandHigh 3 < spec_bandHigh 2 \<and> spec_bandHigh 2 < spec_bandHigh 1"
proof -
  have eqn: "calculateRealisticScore m level =
     (if level = 1 \<or> level = 2 \<or> level = 3
      then spec_clamp (spec_bandLow level) (spec_bandHigh level) (spec_weightedBase m)
      else spec_weightedBase m)"
    by (simp add: weighted_sum_realistic spec_clamp_max_min spec_bandLow_def spec_bandHigh_def)
  have bands: "55 \<le> calculateRealisticScore m 1 \<and> calculateRealisticScore m 1 \<le> 75
     \<and> 40 \<le> calculateRealisticScore m 2 \<and> calculateRealisticScore m 2 \<le> 65
     \<and> 25 \<le> calculateRealisticScore m 3 \<and> calculateRealisticScore m 3 \<le> 45"
    by (simp add: weighted_sum_realistic)
  have ends: "spec_bandLow 1 = 55 \<and> spec_bandHigh 1 = 75
     \<and> spec_bandLow 2 = 40 \<and> spec_bandHigh 2 = 65
     \<and> spec_bandLow 3 = 25 \<and> spec_bandHigh 3 = 45"
    by (simp add: spec_bandLow_def spec_bandHigh_def)
  have ord: "spec_bandLow 3 < spec_bandLow 2 \<and> spec_bandLow 2 < spec_bandLow 1
     \<and> spec_bandHigh 3 < spec_bandHigh 2 \<and> spec_bandHigh 2 < spec_bandHigh 1"
    by (simp add: spec_bandLow_def spec_bandHigh_def)
  from eqn bands ends ord show ?thesis
    unfolding weighted_sum_simulated by blast
qed

subsection \<open>Challenge controller: results\<close>




lemma claim_between_raises_level:
  assumes "0 < smileLevel s" and "smileLevel s < maxSmileLevel"
  shows "smileLevel (processHumanClaim s) = smileLevel s + 1"
  using assms by (simp add: processHumanClaim_def updateHumanityLevel_def Let_def)

lemmas controller_defs =
  processHumanClaim_def fire_def newMirror_def updateHumanityLevel_def
  triggerSmileVerification_def startFakeAnalysis_def createFacialAnalysisOverlay_def
  setupFacialOverlayCanvas_def startOverlayUpdates_def stopOverlayUpdates_def
  animate_def cancelAnimationFrame_def
  resetMirror_def analysisTick_def showFailurePage_def clearInterval_def
  maxSmileLevel_def sampleInput_def Let_def



text \<open>
  Claim C4, as stated, fails in its last part. After the first score has been computed
  the mirror holds a score record; \<^verbatim>\<open>resetMirror\<close> brings level and percentage
  back and leaves that record where it is.
\<close>

theorem reset_keeps_score_counterexample:
  "smileLevel (resetMirror (run [Claim, Fire 0 sampleInput, Fire 0 sampleInput]
                  (newMirror (Some (640, 480)) False False))) = 0
   \<and> humanityPercentage (resetMirror (run [Claim, Fire 0 sampleInput, Fire 0 sampleInput]
                  (newMirror (Some (640, 480)) False False))) = 100
   \<and> currentSmileScoreData (resetMirror (run [Claim, Fire 0 sampleInput, Fire 0 sampleInput]
                  (newMirror (Some (640, 480)) False False)))
       = Some \<lparr> score = 61,
                subMetricsOf = \<lparr> mouthCurvature = 60, eyeSymmetry = 70, smileIntensity = 50,
                                 mouthWidth = 80, facialTension = 40 \<rparr> \<rparr>"
  by (simp add: controller_defs generateSmileScore_def calculateSimulatedScore_def
        calculateRealisticScore_def toFixed1_def)

text \<open>
  Claim C4, amended. From every state, \<^verbatim>\<open>resetMirror\<close> sets the level to 0 and the
  humanity percentage to 100 and ends the analysis flag and the tracking loop; the stored
  score record is left as it was.
\<close>

theorem reset_restores_level_and_humanity:
  "smileLevel (resetMirror s) = 0
   \<and> humanityPercentage (resetMirror s) = 100
   \<and> isAnalyzing (resetMirror s) = False
   \<and> isTracking (resetMirror s) = False
   \<and> currentSmileScoreData (resetMirror s) = currentSmileScoreData s"
  by (simp add: resetMirror_def stopOverlayUpdates_def Let_def split: option.split)

text \<open>No piece of a frame writes a field of the session.\<close>

lemma createBasic_session:
  "sessionFields (stateOf (createBasicLandmarksFromBoundingBox b s)) = sessionFields s"
  by (simp add: createBasicLandmarksFromBoundingBox_def sessionFields_def Let_def
        split: option.split prod.split)

lemma extract_session:
  "sessionFields (stateOf (extractLandmarks f s)) = sessionFields s"
proof (cases "chosenKeypoints f")
  case None
  then show ?thesis
    using createBasic_session [of _ s]
    by (simp add: extractLandmarks_def split: option.split)
next
  case (Some ks)
  then show ?thesis
    by (simp add: extractLandmarks_def smoothLandmarks_def sessionFields_def Let_def
          split: sum.split)
qed

lemma updateBox_session:
  "sessionFields (updateFaceBoundingBox f s) = sessionFields s"
  by (simp add: updateFaceBoundingBox_def sessionFields_def Let_def)

lemma continuous_session:
  "sessionFields (snd (performContinuousFacialDetection det s)) = sessionFields s"
proof (cases det)
  case Rejects
  then show ?thesis by (simp add: performContinuousFacialDetection_def)
next
  case (Resolves faces)
  show ?thesis
  proof (cases faces)
    case Nil
    with Resolves show ?thesis by (simp add: performContinuousFacialDetection_def)
  next
    case (Cons f fs)
    have "sessionFields (stateOf (extractLandmarks f (updateFaceBoundingBox f s))) = sessionFields s"
      by (simp add: extract_session updateBox_session)
    with Cons Resolves show ?thesis
      by (cases "extractLandmarks f (updateFaceBoundingBox f s)")
         (simp_all add: performContinuousFacialDetection_def Let_def)
  qed
qed

lemma fallback_session:
  "sessionFields (stateOf (performFallbackFaceDetection now s)) = sessionFields s"
  by (simp add: performFallbackFaceDetection_def createBasicLandmarksFromBoundingBox_def
        sessionFields_def Let_def split: option.split prod.split)

lemma finish_session:
  "sessionFields (stateOf (finishFacialAnalysisOverlay inp d s)) = sessionFields s"
proof -
  have "sessionFields (stateOf (performFallbackFaceDetection (clock inp) s)) = sessionFields s"
    by (rule fallback_session)
  then show ?thesis
    by (cases "performFallbackFaceDetection (clock inp) s")
       (simp_all add: finishFacialAnalysisOverlay_def split: option.split)
qed

lemma resume_session:
  "sessionFields (stateOf (resumeFacialAnalysisOverlay inp s)) = sessionFields s"
proof -
  obtain d s1 where pc: "performContinuousFacialDetection (settles inp) s = (d, s1)"
    by (cases "performContinuousFacialDetection (settles inp) s")
  with continuous_session [of "settles inp" s] have "sessionFields s1 = sessionFields s" by simp
  with pc finish_session [of inp d s1] show ?thesis
    by (simp add: resumeFacialAnalysisOverlay_def)
qed

lemma setup_session:
  "sessionFields (stateOf (setupFacialOverlayCanvas s)) = sessionFields s"
  by (simp add: setupFacialOverlayCanvas_def sessionFields_def Let_def
        split: option.split prod.split)

lemma animate_session: "sessionFields (animate s) = sessionFields s"
  by (simp add: animate_def sessionFields_def)

lemma thenAnimate_session: "sessionFields (thenAnimate c) = sessionFields (stateOf c)"
  by (cases c) (simp_all add: animate_session)

lemma update_session:
  "sessionFields (case updateFacialAnalysisOverlay inp s of
                    Suspended s1 \<Rightarrow> s1
                  | Finished c \<Rightarrow> stateOf c) = sessionFields s"
proof -
  define c0 where "c0 = (if \<not> facialOverlay s then setupFacialOverlayCanvas s else Returns () s)"
  have s0: "sessionFields (stateOf c0) = sessionFields s"
    by (simp add: c0_def setup_session)
  show ?thesis
  proof (cases c0)
    case (Throws e s0)
    with s0 show ?thesis
      by (simp add: updateFacialAnalysisOverlay_def c0_def [symmetric])
  next
    case (Returns u s1)
    with s0 finish_session [of inp False s1] show ?thesis
      by (simp add: updateFacialAnalysisOverlay_def c0_def [symmetric])
  qed
qed

lemma runFrame_session: "sessionFields (snd (runFrame inp k s)) = sessionFields s"
proof (cases "k < length (frameTasks s)")
  case False
  then show ?thesis by (simp add: runFrame_def)
next
  case True
  let ?s0 = "s\<lparr>frameTasks := take k (frameTasks s) @ drop (Suc k) (frameTasks s)\<rparr>"
  have s0: "sessionFields ?s0 = sessionFields s" by (simp add: sessionFields_def)
  show ?thesis
  proof (cases "frameTasks s ! k")
    case (FrameRequest ident)
    show ?thesis
    proof (cases "updateFacialAnalysisOverlay inp ?s0")
      case (Suspended s1)
      with update_session [of inp ?s0] s0 have "sessionFields s1 = sessionFields s" by simp
      then have "sessionFields (s1\<lparr>frameTasks := frameTasks s1 @ [DetectionPending]\<rparr>)
          = sessionFields s"
        by (simp add: sessionFields_def)
      with True FrameRequest Suspended show ?thesis by (simp add: runFrame_def Let_def)
    next
      case (Finished c)
      with update_session [of inp ?s0] s0 have "sessionFields (stateOf c) = sessionFields s"
        by simp
      with True FrameRequest Finished show ?thesis
        by (simp add: runFrame_def Let_def thenAnimate_session)
    qed
  next
    case DetectionPending
    with True resume_session [of inp ?s0] s0 show ?thesis
      by (simp add: runFrame_def Let_def thenAnimate_session)
  qed
qed

lemma frame_step_session: "sessionFields (step (Frame k inp) s) = sessionFields s"
  by (simp add: runFrame_session)

lemma trigger_keeps_level:
  "smileLevel (stateOf (triggerSmileVerification inp s)) = smileLevel s
   \<and> humanityPercentage (stateOf (triggerSmileVerification inp s)) = humanityPercentage s"
  by (simp add: triggerSmileVerification_def startFakeAnalysis_def createFacialAnalysisOverlay_def
        setupFacialOverlayCanvas_def startOverlayUpdates_def animate_def Let_def split: option.split prod.split)

lemma tick_keeps_level:
  "smileLevel (analysisTick k i p s) = smileLevel s
   \<and> humanityPercentage (analysisTick k i p s) = humanityPercentage s"
  by (simp add: analysisTick_def stopOverlayUpdates_def Let_def split: option.split)


text \<open>The parts of claim C5 that the code keeps: every step preserves the formula for
  the humanity percentage, and only a reset lowers the level.\<close>

lemma step_keeps_humanity_formula:
  assumes "humanityFormula s"
  shows "humanityFormula (step e s)"
proof (cases e)
  case Claim
  with assms show ?thesis
    by (simp add: humanityFormula_def processHumanClaim_def updateHumanityLevel_def Let_def)
next
  case Reset
  then show ?thesis
    by (simp add: humanityFormula_def resetMirror_def stopOverlayUpdates_def Let_def
          split: option.split)
next
  case (Fire k inp)
  with assms show ?thesis
    by (simp add: humanityFormula_def fire_def trigger_keeps_level tick_keeps_level
          updateHumanityLevel_def showFailurePage_def Let_def split: timer.split)
next
  case (Frame k inp)
  with assms frame_step_session [of k inp s] show ?thesis
    by (simp add: humanityFormula_def sessionFields_def)
qed

lemma run_keeps_humanity_formula:
  "humanityFormula s \<Longrightarrow> humanityFormula (run es s)"
  by (induction es arbitrary: s) (simp_all add: step_keeps_humanity_formula)

lemma new_mirror_humanity_formula: "humanityFormula (newMirror cam detector recog)"
  by (simp add: humanityFormula_def newMirror_def)

lemma step_level_monotone:
  "e = Reset \<or> smileLevel s \<le> smileLevel (step e s)"
proof (cases e)
  case Claim
  then show ?thesis
    by (simp add: processHumanClaim_def updateHumanityLevel_def Let_def)
next
  case Reset
  then show ?thesis by simp
next
  case (Fire k inp)
  then show ?thesis
    by (simp add: fire_def trigger_keeps_level tick_keeps_level
          updateHumanityLevel_def showFailurePage_def Let_def split: timer.split)
next
  case (Frame k inp)
  with frame_step_session [of k inp s] show ?thesis
    by (simp add: sessionFields_def)
qed

text \<open>The tracking loop runs only during an analysis: the constructor state has the
  property and every step keeps it.\<close>

lemma new_mirror_tracking_in_analysis: "trackingInAnalysis (newMirror cam detector recog)"
  by (simp add: trackingInAnalysis_def newMirror_def)

lemma trigger_tracking_in_analysis:
  "trackingInAnalysis s \<Longrightarrow> trackingInAnalysis (stateOf (triggerSmileVerification inp s))"
  by (simp add: trackingInAnalysis_def triggerSmileVerification_def startFakeAnalysis_def
        createFacialAnalysisOverlay_def setupFacialOverlayCanvas_def startOverlayUpdates_def animate_def Let_def
        split: option.split prod.split)

lemma step_keeps_tracking_in_analysis:
  assumes "trackingInAnalysis s"
  shows "trackingInAnalysis (step e s)"
proof (cases e)
  case Claim
  with assms show ?thesis
    by (simp add: trackingInAnalysis_def processHumanClaim_def updateHumanityLevel_def Let_def)
next
  case Reset
  then show ?thesis
    by (simp add: trackingInAnalysis_def resetMirror_def stopOverlayUpdates_def Let_def
          split: option.split)
next
  case (Fire k inp)
  show ?thesis
  proof (cases "k < length (timers s)")
    case False
    with Fire assms show ?thesis by (simp add: fire_def)
  next
    case True
    show ?thesis
    proof (cases "timers s ! k")
      case IntroPrompt
      with True Fire assms show ?thesis
        by (simp add: fire_def trackingInAnalysis_def Let_def)
    next
      case IntroMeasure
      have "trackingInAnalysis (updateHumanityLevel
              (s\<lparr>timers := take k (timers s) @ drop (Suc k) (timers s),
                 smileLevel := smileLevel s + 1,
                 humanityPercentage := max 0 (100 - (int (smileLevel s + 1) * 25))\<rparr>))"
        using assms by (simp add: trackingInAnalysis_def updateHumanityLevel_def)
      from trigger_tracking_in_analysis [OF this] IntroMeasure True Fire show ?thesis
        by (simp add: fire_def Let_def)
    next
      case Verify
      have "trackingInAnalysis (s\<lparr>timers := take k (timers s) @ drop (Suc k) (timers s)\<rparr>)"
        using assms by (simp add: trackingInAnalysis_def)
      from trigger_tracking_in_analysis [OF this] Verify True Fire show ?thesis
        by (simp add: fire_def Let_def)
    next
      case Failure
      with True Fire assms show ?thesis
        by (simp add: fire_def trackingInAnalysis_def showFailurePage_def Let_def)
    next
      case (AnalysisInterval i p)
      with True Fire assms show ?thesis
        by (simp add: fire_def trackingInAnalysis_def analysisTick_def stopOverlayUpdates_def Let_def
              split: option.split)
    qed
  qed
next
  case (Frame k inp)
  with assms frame_step_session [of k inp s] show ?thesis
    by (simp add: trackingInAnalysis_def sessionFields_def)
qed

text \<open>
  Claim C5 does not hold of the code in its bound on the level. Four claims made while
  the level is still 0 (say 0, 100, 200 and 300 ms after the first) queue four intro
  timeouts. They fall due 2500 ms after their claims, each queues its inner timeout, and
  those fall due 1500 ms later, before the first tick of any analysis interval. The
  inner callbacks raise the level without testing it, so it passes \<^verbatim>\<open>maxSmileLevel\<close>
  and reaches 4.
\<close>

theorem level_exceeds_max_after_early_claims:
  "smileLevel (run [Claim, Claim, Claim, Claim,
                    Fire 0 sampleInput, Fire 0 sampleInput, Fire 0 sampleInput, Fire 0 sampleInput,
                    Fire 0 sampleInput, Fire 0 sampleInput, Fire 0 sampleInput, Fire 0 sampleInput]
                 (newMirror (Some (640, 480)) False False)) = 4
   \<and> maxSmileLevel = 3"
  by (simp add: controller_defs)

subsection \<open>Landmark tracker: the frame loop\<close>

lemmas tracker_defs =
  runFrame_def updateFacialAnalysisOverlay_def resumeFacialAnalysisOverlay_def
  finishFacialAnalysisOverlay_def detectorIsCalled_def performContinuousFacialDetection_def
  performFallbackFaceDetection_def createBasicLandmarksFromBoundingBox_def
  drawTrackedFace_def drawFaceBoundingBox_def drawMeasurementLabels_def drawScanningEffect_def
  extractLandmarks_def chosenKeypoints_def present_def toPixels_def
  updateFaceBoundingBox_def smoothLandmarks_def smoothPoint_def landmarkSmoothingFactor_def
  webcamReady_def setupFacialOverlayCanvas_def animate_def
  noFaceAt0_def sampleFaceAt33_def movedFaceAt66_def malformedFaceAt33_def
  sampleFace_def movedFace_def malformedFace_def

lemma analysingMirror_eq:
  "analysingMirror =
     \<lparr> smileLevel = 1, humanityPercentage = 75, isListening = False, recognition = False,
       currentSmileScoreData =
         Some \<lparr> score = 61,
                subMetricsOf = \<lparr> mouthCurvature = 60, eyeSymmetry = 70, smileIntensity = 50,
                                 mouthWidth = 80, facialTension = 40 \<rparr> \<rparr>,
       isAnalyzing = True, analysisTimer = Some 1, facialOverlay = True,
       faceCenter = (Num 320, Num 240), model = True, isModelLoaded = True,
       realLandmarks = [], animationFrameId = Some 1, isTracking = True, faceBoundingBox = None,
       smoothedLandmarks = [], lastTriggerTime = 0, isProcessing = False,
       webcam = Some (640, 480), timers = [AnalysisInterval 1 0], nextTimerId = 2,
       frameTasks = [FrameRequest 1], nextFrameId = 2 \<rparr>"
  by (simp add: analysingMirror_def controller_defs generateSmileScore_def
        calculateSimulatedScore_def calculateRealisticScore_def toFixed1_def)

text \<open>Stored landmarks stay numeric through every method of the tracker when the
  detector's faces are well formed.\<close>

lemma numericPoint_iff: "numericPoint p = (\<exists>a b c. p = Point (Num a) (Num b) (Num c))"
proof (cases p)
  case (Point x y z)
  then show ?thesis
    by (cases x; cases y; cases z) (simp_all add: numericPoint_def)
qed

lemma distance_numeric:
  assumes "numericPoint p" and "numericPoint q"
  shows "\<exists>d. distance p q = Num d \<and> 0 \<le> d"
proof -
  from assms obtain a b c where p: "p = Point (Num a) (Num b) (Num c)"
    by (auto simp add: numericPoint_iff)
  from assms obtain u v w where q: "q = Point (Num u) (Num v) (Num w)"
    by (auto simp add: numericPoint_iff)
  have "0 \<le> (a - u) * (a - u) + (b - v) * (b - v) + (c - w) * (c - w)"
    by (simp add: add_nonneg_nonneg)
  then show ?thesis
    by (simp add: p q distance_def Let_def not_less)
qed

lemma toPixels_numeric:
  "\<exists>a b. toPixels (Some wh) x y z = Inr (Point (Num a) (Num b) (Num z))"
  by (cases wh) (simp add: toPixels_def)

lemma keypoint_numeric:
  assumes "carriesXY k"
  shows "\<exists>a b c. keypointToLandmark (Some wh) k = Inr (Point (Num a) (Num b) (Num c))
           \<and> (lacksZ k \<longrightarrow> c = 0)"
  using assms
proof (cases "(Some wh, k)" rule: keypointToLandmark.cases)
  case (3 cam x y z)
  obtain a b where "toPixels (Some wh) x y (case z of None \<Rightarrow> 0 | Some v \<Rightarrow> v)
      = Inr (Point (Num a) (Num b) (Num (case z of None \<Rightarrow> 0 | Some v \<Rightarrow> v)))"
    using toPixels_numeric by blast
  with 3 show ?thesis by (cases z) auto
next
  case (5 cam x y rest)
  obtain a b where "toPixels (Some wh) x y (case rest of [] \<Rightarrow> 0 | v # _ \<Rightarrow> v)
      = Inr (Point (Num a) (Num b) (Num (case rest of [] \<Rightarrow> 0 | v # _ \<Rightarrow> v)))"
    using toPixels_numeric by blast
  with 5 show ?thesis by (cases rest) auto
qed auto

lemma mapLandmarks_numeric:
  "list_all carriesXY ks \<Longrightarrow>
   \<exists>ps. mapLandmarks (Some wh) ks = Inr ps \<and> list_all numericPoint ps \<and> length ps = length ks"
proof (induction ks)
  case Nil
  then show ?case by simp
next
  case (Cons k ks)
  then obtain ps where ps: "mapLandmarks (Some wh) ks = Inr ps" "list_all numericPoint ps"
      "length ps = length ks"
    by auto
  from Cons.prems have "carriesXY k" by simp
  then obtain a b c where "keypointToLandmark (Some wh) k = Inr (Point (Num a) (Num b) (Num c))"
    using keypoint_numeric by blast
  moreover have "numericPoint (Point (Num a) (Num b) (Num c))"
    by (simp add: numericPoint_def)
  ultimately show ?case using ps by simp
qed

lemma smoothPoint_numeric:
  assumes "numericPoint p" and "numericPoint q"
  shows "numericPoint (smoothPoint p q)"
proof -
  from assms obtain a b c where p: "p = Point (Num a) (Num b) (Num c)"
    by (auto simp add: numericPoint_iff)
  from assms obtain u v w where q: "q = Point (Num u) (Num v) (Num w)"
    by (auto simp add: numericPoint_iff)
  show ?thesis by (simp add: p q smoothPoint_def numericPoint_def)
qed

lemma smoothPoints_numeric:
  "list_all numericPoint olds \<Longrightarrow> list_all numericPoint news \<Longrightarrow>
   list_all numericPoint (smoothPoints olds news)"
  by (induction olds news rule: smoothPoints.induct) (simp_all add: smoothPoint_numeric)

lemma smoothLandmarks_numeric:
  assumes "numericLandmarks s" and "list_all numericPoint news"
  shows "numericLandmarks (smoothLandmarks news s)"
  using assms
  by (simp add: numericLandmarks_def smoothLandmarks_def Let_def smoothPoints_numeric)

lemma jsnum_cases_numeric: "x \<noteq> NaN \<Longrightarrow> \<exists>r. x = Num r"
  by (cases x) simp_all

lemma createBasic_numeric:
  assumes "numericLandmarks s" and "numericArg b"
  shows "numericLandmarks (stateOf (createBasicLandmarksFromBoundingBox b s))"
proof (cases "webcam s")
  case None
  with assms show ?thesis by (simp add: createBasicLandmarksFromBoundingBox_def)
next
  case (Some wh)
  obtain w h where wh: "wh = (w, h)" by (cases wh)
  from assms(2) obtain cx cy bw bh where
    "xCenter b = Num cx" "yCenter b = Num cy" "bbWidth b = Num bw" "bbHeight b = Num bh"
    unfolding numericArg_def by (metis jsnum_cases_numeric)
  with Some wh show ?thesis
    by (simp add: createBasicLandmarksFromBoundingBox_def Let_def numericLandmarks_def numericPoint_def)
qed

lemma toPixels_numeric_any:
  "case toPixels cam x y z of Inl e \<Rightarrow> True | Inr p \<Rightarrow> numericPoint p"
  by (simp add: toPixels_def numericPoint_def split: option.split prod.split)

lemma keypoint_numeric_any:
  assumes "carriesXY k"
  shows "case keypointToLandmark cam k of Inl e \<Rightarrow> True | Inr p \<Rightarrow> numericPoint p"
  using assms
proof (cases "(cam, k)" rule: keypointToLandmark.cases)
  case (3 cam' x y z)
  with toPixels_numeric_any [of cam x y "case z of None \<Rightarrow> 0 | Some v \<Rightarrow> v"]
  show ?thesis by simp
next
  case (5 cam' x y rest)
  with toPixels_numeric_any [of cam x y "case rest of [] \<Rightarrow> 0 | v # _ \<Rightarrow> v"]
  show ?thesis by simp
qed auto

lemma mapLandmarks_numeric_any:
  "list_all carriesXY ks \<Longrightarrow>
   (case mapLandmarks cam ks of Inl e \<Rightarrow> True | Inr ps \<Rightarrow> list_all numericPoint ps)"
proof (induction ks)
  case Nil
  then show ?case by simp
next
  case (Cons k ks)
  from Cons.prems have "carriesXY k" by simp
  from keypoint_numeric_any [OF this, of cam] Cons show ?case
    by (auto split: sum.splits)
qed

lemma extract_numeric:
  assumes "numericLandmarks s" and "wellFormedFace f"
  shows "numericLandmarks (stateOf (extractLandmarks f s))"
proof (cases "chosenKeypoints f")
  case None
  show ?thesis
  proof (cases "face_boundingBox f")
    case None
    with \<open>chosenKeypoints f = None\<close> assms show ?thesis by (simp add: extractLandmarks_def)
  next
    case (Some b)
    with \<open>chosenKeypoints f = None\<close> assms have "numericArg b" by (simp add: wellFormedFace_def)
    from createBasic_numeric [OF assms(1) this] Some \<open>chosenKeypoints f = None\<close>
    show ?thesis by (simp add: extractLandmarks_def)
  qed
next
  case (Some ks)
  with assms have ks: "list_all carriesXY ks" by (simp add: wellFormedFace_def)
  show ?thesis
  proof (cases "mapLandmarks (webcam s) ks")
    case (Inl e)
    with Some assms(1) show ?thesis by (simp add: extractLandmarks_def)
  next
    case (Inr ps)
    with mapLandmarks_numeric_any [OF ks, of "webcam s"] have ps: "list_all numericPoint ps"
      by simp
    from smoothLandmarks_numeric [OF assms(1) ps] Some Inr ps assms(1) show ?thesis
      by (simp add: extractLandmarks_def numericLandmarks_def)
  qed
qed

lemma updateBox_numeric:
  "numericLandmarks (updateFaceBoundingBox f s) = numericLandmarks s"
  by (simp add: updateFaceBoundingBox_def Let_def numericLandmarks_def)

lemma continuous_numeric:
  assumes "numericLandmarks s" and "wellFormedDetection det"
  shows "numericLandmarks (snd (performContinuousFacialDetection det s))"
proof (cases det)
  case Rejects
  with assms show ?thesis by (simp add: performContinuousFacialDetection_def)
next
  case (Resolves faces)
  show ?thesis
  proof (cases faces)
    case Nil
    with Resolves assms show ?thesis by (simp add: performContinuousFacialDetection_def)
  next
    case (Cons f fs)
    with Resolves assms have wf: "wellFormedFace f" by (simp add: wellFormedDetection_def)
    have n1: "numericLandmarks (updateFaceBoundingBox f s)"
      using assms(1) by (simp add: updateBox_numeric)
    from extract_numeric [OF n1 wf] Cons Resolves show ?thesis
      by (cases "extractLandmarks f (updateFaceBoundingBox f s)")
         (simp_all add: performContinuousFacialDetection_def Let_def)
  qed
qed

lemma fallback_numeric:
  assumes "numericLandmarks s"
  shows "numericLandmarks (stateOf (performFallbackFaceDetection now s))"
  using assms
  by (simp add: performFallbackFaceDetection_def createBasicLandmarksFromBoundingBox_def Let_def
        numericLandmarks_def numericPoint_def split: option.split prod.split)

lemma setup_numeric:
  "numericLandmarks (stateOf (setupFacialOverlayCanvas s)) = numericLandmarks s"
  by (simp add: setupFacialOverlayCanvas_def Let_def numericLandmarks_def split: option.split prod.split)

lemma finish_numeric:
  assumes "numericLandmarks s"
  shows "numericLandmarks (stateOf (finishFacialAnalysisOverlay inp d s))"
proof -
  from fallback_numeric [OF assms, of "clock inp"] assms show ?thesis
    by (cases "performFallbackFaceDetection (clock inp) s")
       (simp_all add: finishFacialAnalysisOverlay_def split: option.split)
qed

lemma resume_numeric:
  assumes "numericLandmarks s" and "wellFormedDetection (settles inp)"
  shows "numericLandmarks (stateOf (resumeFacialAnalysisOverlay inp s))"
proof -
  obtain d s1 where pc: "performContinuousFacialDetection (settles inp) s = (d, s1)"
    by (cases "performContinuousFacialDetection (settles inp) s")
  with continuous_numeric [OF assms] have "numericLandmarks s1" by simp
  from finish_numeric [OF this, of inp d] pc show ?thesis
    by (simp add: resumeFacialAnalysisOverlay_def)
qed

lemma animate_numeric: "numericLandmarks (animate s) = numericLandmarks s"
  by (simp add: animate_def numericLandmarks_def)

lemma thenAnimate_numeric: "numericLandmarks (thenAnimate c) = numericLandmarks (stateOf c)"
  by (cases c) (simp_all add: animate_numeric)

lemma update_numeric:
  assumes "numericLandmarks s"
  shows "numericLandmarks (case updateFacialAnalysisOverlay inp s of
                             Suspended s1 \<Rightarrow> s1
                           | Finished c \<Rightarrow> stateOf c)"
proof -
  define c0 where "c0 = (if \<not> facialOverlay s then setupFacialOverlayCanvas s else Returns () s)"
  have n0: "numericLandmarks (stateOf c0)"
    using assms by (simp add: c0_def setup_numeric)
  show ?thesis
  proof (cases c0)
    case (Throws e s0)
    with n0 show ?thesis
      by (simp add: updateFacialAnalysisOverlay_def c0_def [symmetric])
  next
    case (Returns u s1)
    with n0 have "numericLandmarks s1" by simp
    with Returns finish_numeric [of s1 inp False] show ?thesis
      by (simp add: updateFacialAnalysisOverlay_def c0_def [symmetric])
  qed
qed

lemma runFrame_numeric:
  assumes "numericLandmarks s" and "wellFormedDetection (settles inp)"
  shows "numericLandmarks (snd (runFrame inp k s))"
proof (cases "k < length (frameTasks s)")
  case False
  with assms show ?thesis by (simp add: runFrame_def)
next
  case True
  let ?s0 = "s\<lparr>frameTasks := take k (frameTasks s) @ drop (Suc k) (frameTasks s)\<rparr>"
  have n0: "numericLandmarks ?s0" using assms(1) by (simp add: numericLandmarks_def)
  show ?thesis
  proof (cases "frameTasks s ! k")
    case (FrameRequest ident)
    show ?thesis
    proof (cases "updateFacialAnalysisOverlay inp ?s0")
      case (Suspended s1)
      with update_numeric [OF n0, of inp] have "numericLandmarks s1" by simp
      then have "numericLandmarks (s1\<lparr>frameTasks := frameTasks s1 @ [DetectionPending]\<rparr>)"
        by (simp add: numericLandmarks_def)
      with True FrameRequest Suspended show ?thesis by (simp add: runFrame_def Let_def)
    next
      case (Finished c)
      with update_numeric [OF n0, of inp] have "numericLandmarks (stateOf c)" by simp
      with True FrameRequest Finished show ?thesis
        by (simp add: runFrame_def Let_def thenAnimate_numeric)
    qed
  next
    case DetectionPending
    with True resume_numeric [OF n0 assms(2)] show ?thesis
      by (simp add: runFrame_def Let_def thenAnimate_numeric)
  qed
qed

lemma trigger_keeps_landmarks:
  "realLandmarks (stateOf (triggerSmileVerification inp s)) = realLandmarks s
   \<and> smoothedLandmarks (stateOf (triggerSmileVerification inp s)) = smoothedLandmarks s
   \<and> faceBoundingBox (stateOf (triggerSmileVerification inp s)) = faceBoundingBox s
   \<and> webcam (stateOf (triggerSmileVerification inp s)) = webcam s"
  by (simp add: triggerSmileVerification_def startFakeAnalysis_def createFacialAnalysisOverlay_def
        setupFacialOverlayCanvas_def startOverlayUpdates_def animate_def Let_def
        split: option.split prod.split)

lemma tick_keeps_landmarks:
  "realLandmarks (analysisTick k i p s) = realLandmarks s
   \<and> smoothedLandmarks (analysisTick k i p s) = smoothedLandmarks s
   \<and> faceBoundingBox (analysisTick k i p s) = faceBoundingBox s
   \<and> webcam (analysisTick k i p s) = webcam s"
  by (simp add: analysisTick_def stopOverlayUpdates_def Let_def split: option.split)

lemma controller_step_keeps_tracker:
  assumes "\<forall>k inp. e \<noteq> Frame k inp"
  shows "realLandmarks (step e s) = realLandmarks s
   \<and> smoothedLandmarks (step e s) = smoothedLandmarks s
   \<and> faceBoundingBox (step e s) = faceBoundingBox s
   \<and> webcam (step e s) = webcam s"
proof (cases e)
  case Claim
  then show ?thesis
    by (simp add: processHumanClaim_def updateHumanityLevel_def Let_def)
next
  case Reset
  then show ?thesis
    by (simp add: resetMirror_def stopOverlayUpdates_def Let_def split: option.split)
next
  case (Fire k inp)
  then show ?thesis
    by (simp add: fire_def trigger_keeps_landmarks tick_keeps_landmarks
          updateHumanityLevel_def showFailurePage_def Let_def split: timer.split)
next
  case (Frame k inp)
  with assms show ?thesis by simp
qed

lemma step_numeric:
  assumes "numericLandmarks s" and "wellFormedEvent e"
  shows "numericLandmarks (step e s)"
proof (cases "\<exists>k inp. e = Frame k inp")
  case True
  then obtain k inp where e: "e = Frame k inp" by blast
  with assms runFrame_numeric [of s inp k] show ?thesis by simp
next
  case False
  then have "\<forall>k inp. e \<noteq> Frame k inp" by blast
  from controller_step_keeps_tracker [OF this, of s] assms(1) show ?thesis
    by (simp add: numericLandmarks_def)
qed

lemma run_numeric:
  "numericLandmarks s \<Longrightarrow> \<forall>e \<in> set es. wellFormedEvent e \<Longrightarrow> numericLandmarks (run es s)"
  by (induction es arbitrary: s) (simp_all add: step_numeric)

text \<open>Frames in which detection fails.\<close>

lemma basic_landmarks_few:
  assumes "webcam s = Some (w, h)" and "0 < w" and "0 < h"
  shows "\<exists>s2. performFallbackFaceDetection now s = Returns True s2
           \<and> faceBoundingBox s2 \<noteq> None \<and> length (realLandmarks s2) = 6"
  using assms
  by (simp add: performFallbackFaceDetection_def createBasicLandmarksFromBoundingBox_def Let_def)

lemma few_landmarks_draw:
  "length (realLandmarks s) < 468 \<Longrightarrow> drawTrackedFace b s = None"
  by (simp add: drawTrackedFace_def drawFaceBoundingBox_def drawMeasurementLabels_def)






lemma extract_keeps_box:
  "faceBoundingBox (stateOf (extractLandmarks f s)) = faceBoundingBox s
   \<and> faceCenter (stateOf (extractLandmarks f s)) = faceCenter s"
  by (simp add: extractLandmarks_def createBasicLandmarksFromBoundingBox_def smoothLandmarks_def
        Let_def split: option.split prod.split sum.split)

lemma continuous_keeps_box_defined:
  assumes "faceBoundingBox s \<noteq> None"
  shows "faceBoundingBox (snd (performContinuousFacialDetection det s)) \<noteq> None"
proof (cases det)
  case Rejects
  with assms show ?thesis by (simp add: performContinuousFacialDetection_def)
next
  case (Resolves faces)
  show ?thesis
  proof (cases faces)
    case Nil
    with Resolves assms show ?thesis by (simp add: performContinuousFacialDetection_def)
  next
    case (Cons f fs)
    have "faceBoundingBox (updateFaceBoundingBox f s) \<noteq> None"
      using assms by (simp add: updateFaceBoundingBox_def Let_def)
    with extract_keeps_box [of f "updateFaceBoundingBox f s"]
    have "faceBoundingBox (stateOf (extractLandmarks f (updateFaceBoundingBox f s))) \<noteq> None"
      by simp
    with Cons Resolves show ?thesis
      by (cases "extractLandmarks f (updateFaceBoundingBox f s)")
         (simp_all add: performContinuousFacialDetection_def Let_def)
  qed
qed

lemma fallback_keeps_box_defined:
  "faceBoundingBox s \<noteq> None \<Longrightarrow>
   faceBoundingBox (stateOf (performFallbackFaceDetection now s)) \<noteq> None"
  by (simp add: performFallbackFaceDetection_def createBasicLandmarksFromBoundingBox_def Let_def
        split: option.split prod.split)

lemma finish_keeps_box_defined:
  assumes "faceBoundingBox s \<noteq> None"
  shows "faceBoundingBox (stateOf (finishFacialAnalysisOverlay inp d s)) \<noteq> None"
  using fallback_keeps_box_defined [OF assms, of "clock inp"] assms
  by (cases "performFallbackFaceDetection (clock inp) s")
     (simp_all add: finishFacialAnalysisOverlay_def split: option.split)

lemma update_keeps_box_defined:
  assumes "faceBoundingBox s \<noteq> None"
  shows "faceBoundingBox (case updateFacialAnalysisOverlay inp s of
                            Suspended s1 \<Rightarrow> s1
                          | Finished c \<Rightarrow> stateOf c) \<noteq> None"
proof -
  define c0 where "c0 = (if \<not> facialOverlay s then setupFacialOverlayCanvas s else Returns () s)"
  have bc: "faceBoundingBox (stateOf c0) \<noteq> None"
    using assms
    by (simp add: c0_def setupFacialOverlayCanvas_def Let_def split: option.split prod.split)
  show ?thesis
  proof (cases c0)
    case (Throws e s1)
    with bc show ?thesis
      by (simp add: updateFacialAnalysisOverlay_def c0_def [symmetric])
  next
    case (Returns u s1)
    with bc have "faceBoundingBox s1 \<noteq> None" by simp
    with finish_keeps_box_defined [of s1 inp False] Returns show ?thesis
      by (simp add: updateFacialAnalysisOverlay_def c0_def [symmetric])
  qed
qed

lemma thenAnimate_box: "faceBoundingBox (thenAnimate c) = faceBoundingBox (stateOf c)"
  by (cases c) (simp_all add: animate_def)

lemma runFrame_keeps_box_defined:
  assumes "faceBoundingBox s \<noteq> None"
  shows "faceBoundingBox (snd (runFrame inp k s)) \<noteq> None"
proof (cases "k < length (frameTasks s)")
  case False
  with assms show ?thesis by (simp add: runFrame_def)
next
  case True
  let ?s0 = "s\<lparr>frameTasks := take k (frameTasks s) @ drop (Suc k) (frameTasks s)\<rparr>"
  have b0: "faceBoundingBox ?s0 \<noteq> None" using assms by simp
  show ?thesis
  proof (cases "frameTasks s ! k")
    case (FrameRequest ident)
    show ?thesis
    proof (cases "updateFacialAnalysisOverlay inp ?s0")
      case (Suspended s1)
      with update_keeps_box_defined [OF b0, of inp] have "faceBoundingBox s1 \<noteq> None" by simp
      with True FrameRequest Suspended show ?thesis by (simp add: runFrame_def Let_def)
    next
      case (Finished c)
      with update_keeps_box_defined [OF b0, of inp] have "faceBoundingBox (stateOf c) \<noteq> None"
        by simp
      with True FrameRequest Finished show ?thesis
        by (simp add: runFrame_def Let_def thenAnimate_box)
    qed
  next
    case DetectionPending
    obtain d s1 where pc: "performContinuousFacialDetection (settles inp) ?s0 = (d, s1)"
      by (cases "performContinuousFacialDetection (settles inp) ?s0")
    with continuous_keeps_box_defined [OF b0, of "settles inp"]
    have "faceBoundingBox s1 \<noteq> None" by simp
    from finish_keeps_box_defined [OF this, of inp d] pc True DetectionPending show ?thesis
      by (simp add: runFrame_def Let_def resumeFacialAnalysisOverlay_def thenAnimate_box)
  qed
qed

lemma step_keeps_box_defined:
  assumes "faceBoundingBox s \<noteq> None"
  shows "faceBoundingBox (step e s) \<noteq> None"
proof (cases "\<exists>k inp. e = Frame k inp")
  case True
  then obtain k inp where "e = Frame k inp" by blast
  with runFrame_keeps_box_defined [OF assms, of inp k] show ?thesis by simp
next
  case False
  then have "\<forall>k inp. e \<noteq> Frame k inp" by blast
  from controller_step_keeps_tracker [OF this, of s] assms show ?thesis by simp
qed

lemma run_keeps_box_defined:
  "faceBoundingBox s \<noteq> None \<Longrightarrow> faceBoundingBox (run es s) \<noteq> None"
proof (induction es arbitrary: s)
  case Nil
  then show ?case by simp
next
  case (Cons e es)
  from Cons.prems have "faceBoundingBox (step e s) \<noteq> None"
    by (rule step_keeps_box_defined)
  then have "faceBoundingBox (run es (step e s)) \<noteq> None"
    by (rule Cons.IH)
  then show ?case by simp
qed

lemma step_keeps_webcam: "webcam (step e s) = webcam s"
proof (cases "\<exists>k inp. e = Frame k inp")
  case True
  then obtain k inp where "e = Frame k inp" by blast
  with frame_step_session [of k inp s] show ?thesis by (simp add: sessionFields_def)
next
  case False
  then have "\<forall>k inp. e \<noteq> Frame k inp" by blast
  from controller_step_keeps_tracker [OF this, of s] show ?thesis by simp
qed



text \<open>Frames in which detection succeeds, and the box kept with the landmarks.\<close>

lemma mapLandmarks_no_null:
  "KNull \<notin> set ks \<Longrightarrow> \<exists>ps. mapLandmarks (Some wh) ks = Inr ps \<and> length ps = length ks"
proof (induction ks)
  case Nil
  then show ?case by simp
next
  case (Cons k ks)
  then obtain ps where ps: "mapLandmarks (Some wh) ks = Inr ps" "length ps = length ks" by auto
  have "\<exists>p. keypointToLandmark (Some wh) k = Inr p"
    using Cons.prems
    by (cases "(Some wh, k)" rule: keypointToLandmark.cases)
       (auto simp add: toPixels_def split: prod.split)
  then show ?case using ps by auto
qed

lemma extract_returns:
  assumes "webcam s = Some wh" and "extractable f"
  shows "\<exists>s'. extractLandmarks f s = Returns () s'
      \<and> faceBoundingBox s' = faceBoundingBox s \<and> webcam s' = webcam s \<and> isAnalyzing s' = isAnalyzing s"
proof (cases "chosenKeypoints f")
  case None
  with assms show ?thesis
    by (cases wh) (simp add: extractLandmarks_def createBasicLandmarksFromBoundingBox_def Let_def
          split: option.split)
next
  case (Some ks)
  with assms have "KNull \<notin> set ks" by (simp add: extractable_def)
  then obtain ps where "mapLandmarks (Some wh) ks = Inr ps"
    using mapLandmarks_no_null by blast
  with Some assms(1) show ?thesis
    by (simp add: extractLandmarks_def smoothLandmarks_def Let_def)
qed


lemma resume_detected:
  assumes "faceBoundingBox s \<noteq> None \<or> realLandmarks s \<noteq> []"
    and "settles inp = Resolves (f # fs)"
    and "extractable f" and "webcam s = Some wh"
  shows "\<exists>s2. extractLandmarks f (updateFaceBoundingBox f s) = Returns () s2
           \<and> faceBoundingBox s2 \<noteq> None
           \<and> resumeFacialAnalysisOverlay inp s =
               (case drawTrackedFace (canvasThrows inp) s2 of
                  Some e \<Rightarrow> Throws e s2
                | None \<Rightarrow> Returns DrewDetected s2)"
proof -
  let ?s1 = "updateFaceBoundingBox f s"
  have box1: "faceBoundingBox ?s1 \<noteq> None" and cam1: "webcam ?s1 = Some wh"
    using assms(1,4) by (auto simp add: updateFaceBoundingBox_def Let_def)
  from extract_returns [OF cam1 assms(3)] obtain s2 where
    s2: "extractLandmarks f ?s1 = Returns () s2" "faceBoundingBox s2 = faceBoundingBox ?s1"
    by blast
  have pc: "performContinuousFacialDetection (settles inp) s = (True, s2)"
    using assms(2) s2(1) by (simp add: performContinuousFacialDetection_def Let_def)
  from s2(2) box1 have b2: "faceBoundingBox s2 \<noteq> None" by simp
  with pc s2(1) show ?thesis
    by (simp add: resumeFacialAnalysisOverlay_def finishFacialAnalysisOverlay_def
          split: option.split)
qed



lemma resume_box_defined:
  assumes "webcam s = Some (w, h)" and "0 < w" and "0 < h"
  shows "faceBoundingBox (stateOf (resumeFacialAnalysisOverlay inp s)) \<noteq> None"
proof -
  obtain d s1 where pc: "performContinuousFacialDetection (settles inp) s = (d, s1)"
    by (cases "performContinuousFacialDetection (settles inp) s")
  from continuous_session [of "settles inp" s] pc assms(1) have cam1: "webcam s1 = Some (w, h)"
    by (simp add: sessionFields_def)
  show ?thesis
  proof (cases "faceBoundingBox s1 = None")
    case False
    from finish_keeps_box_defined [OF this, of inp d] pc show ?thesis
      by (simp add: resumeFacialAnalysisOverlay_def)
  next
    case True
    from basic_landmarks_few [OF cam1 assms(2,3), of "clock inp"] obtain s2 where
      s2: "performFallbackFaceDetection (clock inp) s1 = Returns True s2"
        "faceBoundingBox s2 \<noteq> None"
      by blast
    with True pc show ?thesis
      by (simp add: resumeFacialAnalysisOverlay_def finishFacialAnalysisOverlay_def
            split: option.split)
  qed
qed

lemma update_box_with_landmarks:
  assumes "boxWithLandmarks s"
  shows "boxWithLandmarks (case updateFacialAnalysisOverlay inp s of
                             Suspended s1 \<Rightarrow> s1
                           | Finished c \<Rightarrow> stateOf c)"
proof -
  define c0 where "c0 = (if \<not> facialOverlay s then setupFacialOverlayCanvas s else Returns () s)"
  have bc: "boxWithLandmarks (stateOf c0)"
    using assms
    by (simp add: c0_def setupFacialOverlayCanvas_def boxWithLandmarks_def Let_def
          split: option.split prod.split)
  have fb: "\<And>s1. boxWithLandmarks s1 \<Longrightarrow>
      boxWithLandmarks (stateOf (finishFacialAnalysisOverlay inp False s1))"
    by (simp add: finishFacialAnalysisOverlay_def performFallbackFaceDetection_def
          createBasicLandmarksFromBoundingBox_def boxWithLandmarks_def Let_def
          split: option.split prod.split)
  show ?thesis
  proof (cases c0)
    case (Throws e s1)
    with bc show ?thesis
      by (simp add: updateFacialAnalysisOverlay_def c0_def [symmetric])
  next
    case (Returns u s1)
    with bc have "boxWithLandmarks s1" by simp
    with fb [of s1] Returns show ?thesis
      by (simp add: updateFacialAnalysisOverlay_def c0_def [symmetric])
  qed
qed

lemma step_box_with_landmarks:
  assumes "webcam s = Some (w, h)" and "0 < w" and "0 < h" and "boxWithLandmarks s"
  shows "boxWithLandmarks (step e s)"
proof (cases "\<exists>k inp. e = Frame k inp")
  case False
  then have "\<forall>k inp. e \<noteq> Frame k inp" by blast
  from controller_step_keeps_tracker [OF this, of s] assms(4) show ?thesis
    by (simp add: boxWithLandmarks_def)
next
  case True
  then obtain k inp where e: "e = Frame k inp" by blast
  show ?thesis
  proof (cases "k < length (frameTasks s)")
    case False
    with assms(4) e show ?thesis by (simp add: runFrame_def)
  next
    case True
    let ?s0 = "s\<lparr>frameTasks := take k (frameTasks s) @ drop (Suc k) (frameTasks s)\<rparr>"
    have i0: "boxWithLandmarks ?s0" using assms(4) by (simp add: boxWithLandmarks_def)
    have cam0: "webcam ?s0 = Some (w, h)" using assms(1) by simp
    have an: "\<And>c. boxWithLandmarks (thenAnimate c) = boxWithLandmarks (stateOf c)"
    proof -
      fix c show "boxWithLandmarks (thenAnimate c) = boxWithLandmarks (stateOf c)"
        by (cases c) (simp_all add: animate_def boxWithLandmarks_def)
    qed
    show ?thesis
    proof (cases "frameTasks s ! k")
      case (FrameRequest ident)
      show ?thesis
      proof (cases "updateFacialAnalysisOverlay inp ?s0")
        case (Suspended s1)
        with update_box_with_landmarks [OF i0, of inp] have "boxWithLandmarks s1" by simp
        then have "boxWithLandmarks (s1\<lparr>frameTasks := frameTasks s1 @ [DetectionPending]\<rparr>)"
          by (simp add: boxWithLandmarks_def)
        with True FrameRequest Suspended e show ?thesis by (simp add: runFrame_def Let_def)
      next
        case (Finished c)
        with update_box_with_landmarks [OF i0, of inp] have "boxWithLandmarks (stateOf c)" by simp
        with True FrameRequest Finished e show ?thesis
          by (simp add: runFrame_def Let_def an)
      qed
    next
      case DetectionPending
      from resume_box_defined [OF cam0 assms(2,3), of inp]
      have "boxWithLandmarks (stateOf (resumeFacialAnalysisOverlay inp ?s0))"
        by (simp add: boxWithLandmarks_def)
      with True DetectionPending e show ?thesis
        by (simp add: runFrame_def Let_def an)
    qed
  qed
qed

lemma new_mirror_box_with_landmarks: "boxWithLandmarks (newMirror cam detector recog)"
  by (simp add: boxWithLandmarks_def newMirror_def)

lemma run_box_with_landmarks:
  assumes "webcam s = Some (w, h)" and "0 < w" and "0 < h" and "boxWithLandmarks s"
  shows "boxWithLandmarks (run es s)"
  using assms
proof (induction es arbitrary: s)
  case Nil
  then show ?case by simp
next
  case (Cons e es)
  have cam1: "webcam (step e s) = Some (w, h)"
    using Cons.prems(1) by (simp add: step_keeps_webcam)
  have "boxWithLandmarks (step e s)"
    using Cons.prems by (rule step_box_with_landmarks)
  with Cons.IH [OF cam1 Cons.prems(2,3)] show ?case by simp
qed

text \<open>The two pending states of the sample session, and what a whole frame stores.\<close>

lemma fallbackPending_eq:
  "fallbackPending =
     analysingMirror
       \<lparr> realLandmarks := map numPoint [(281.6, 209.24, 0), (358.4, 209.24, 0), (320, 245, 0),
                     (291.2, 292.68, 0), (348.8, 292.68, 0), (320, 328.44, 0)],
         smoothedLandmarks := map numPoint [(281.6, 209.24, 0), (358.4, 209.24, 0), (320, 245, 0),
                     (291.2, 292.68, 0), (348.8, 292.68, 0), (320, 328.44, 0)],
         faceBoundingBox := Some \<lparr> box_x = Num 320, box_y = Num 245, box_width = Num 192,
                                   box_height = Num 238.4 \<rparr>,
         animationFrameId := Some 2, frameTasks := [DetectionPending], nextFrameId := 3 \<rparr>"
  by (simp add: fallbackPending_def analysingMirror_eq tracker_defs Let_def numPoint_def)

lemma detectedPending_eq:
  "detectedPending =
     analysingMirror
       \<lparr> realLandmarks := map numPoint [(154.48, 132.772, 0), (247.52, 272.772, 0)],
         smoothedLandmarks := map numPoint [(154.48, 132.772, 0), (247.52, 272.772, 0)],
         faceBoundingBox := Some \<lparr> box_x = Num 320, box_y = Num 252.152, box_width = Num 157.44,
                                   box_height = Num 202.64 \<rparr>,
         faceCenter := (Num 320, Num 252.152),
         animationFrameId := Some 3, frameTasks := [DetectionPending], nextFrameId := 4 \<rparr>"
  by (simp add: detectedPending_def fallbackPending_eq)
     (simp add: analysingMirror_eq tracker_defs Let_def numPoint_def)

lemma mathMin_numeric: "rs \<noteq> [] \<Longrightarrow> mathMin (map Num rs) = Num (Min (set rs))"
proof (induction rs)
  case Nil
  then show ?case by simp
next
  case (Cons a rs)
  show ?case
  proof (cases rs)
    case Nil
    then show ?thesis by simp
  next
    case (Cons b rest)
    with Cons.IH have "mathMin (map Num rs) = Num (Min (set rs))" by simp
    with Cons show ?thesis by (simp add: min.commute)
  qed
qed

lemma mathMax_numeric: "rs \<noteq> [] \<Longrightarrow> mathMax (map Num rs) = Num (Max (set rs))"
proof (induction rs)
  case Nil
  then show ?case by simp
next
  case (Cons a rs)
  show ?case
  proof (cases rs)
    case Nil
    then show ?thesis by simp
  next
    case (Cons b rest)
    with Cons.IH have "mathMax (map Num rs) = Num (Max (set rs))" by simp
    with Cons show ?thesis by (simp add: max.commute)
  qed
qed

lemma coords_of_numPoints:
  "map p0 (map numPoint pts) = map Num (map fst pts)"
  "map p1 (map numPoint pts) = map Num (map (\<lambda>c. fst (snd c)) pts)"
  by (simp_all add: numPoint_def comp_def)

lemma new_box_fields:
  assumes "realLandmarks s = map numPoint pts" and "pts \<noteq> []"
  shows "(mathMin (map p0 (realLandmarks s)) + mathMax (map p0 (realLandmarks s))) / Num 2
           = box_x (spec_extentsBox pts)"
    and "(mathMin (map p1 (realLandmarks s)) + mathMax (map p1 (realLandmarks s))) / Num 2
           = box_y (spec_extentsBox pts)"
    and "mathMax (map p0 (realLandmarks s)) - mathMin (map p0 (realLandmarks s))
           = box_width (spec_extentsBox pts)"
    and "mathMax (map p1 (realLandmarks s)) - mathMin (map p1 (realLandmarks s))
           = box_height (spec_extentsBox pts)"
  using assms
  by (simp_all add: coords_of_numPoints mathMin_numeric mathMax_numeric spec_extentsBox_def Let_def
        del: map_map)

lemma update_box_detected:
  assumes "realLandmarks s = map numPoint pts" and "pts \<noteq> []"
  shows "faceBoundingBox (updateFaceBoundingBox f s) =
           Some (case faceBoundingBox s of
                   None \<Rightarrow> spec_extentsBox pts
                 | Some old \<Rightarrow> spec_smoothBox old (spec_extentsBox pts))"
proof -
  have ne: "length (realLandmarks s) > 0" using assms by simp
  note nb = new_box_fields [OF assms]
  show ?thesis
  proof (cases "faceBoundingBox s")
    case None
    then show ?thesis
      using ne by (simp add: updateFaceBoundingBox_def Let_def nb)
  next
    case (Some old)
    then show ?thesis
      using ne by (simp add: updateFaceBoundingBox_def Let_def nb spec_smoothBox_def)
  qed
qed

lemma smoothPoints_nth:
  "i < length news \<Longrightarrow> i < length olds \<Longrightarrow>
   smoothPoints olds news ! i = smoothPoint (olds ! i) (news ! i)"
proof (induction olds news arbitrary: i rule: smoothPoints.induct)
  case (1 olds)
  then show ?case by simp
next
  case (2 newPoint news)
  then show ?case by simp
next
  case (3 oldPoint olds newPoint news)
  then show ?case by (cases i) simp_all
qed

lemma smoothPoints_length: "length (smoothPoints olds news) = length news"
  by (induction olds news rule: smoothPoints.induct) simp_all


lemma thenAnimate_tracker:
  "faceBoundingBox (thenAnimate c) = faceBoundingBox (stateOf c)"
  "faceCenter (thenAnimate c) = faceCenter (stateOf c)"
  "realLandmarks (thenAnimate c) = realLandmarks (stateOf c)"
  "smoothedLandmarks (thenAnimate c) = smoothedLandmarks (stateOf c)"
  "facialOverlay (thenAnimate c) = facialOverlay (stateOf c)"
  by (cases c; simp add: animate_def)+

lemma draw_thenAnimate:
  "drawTrackedFace b (thenAnimate c) = drawTrackedFace b (stateOf c)"
  by (simp add: drawTrackedFace_def drawFaceBoundingBox_def drawMeasurementLabels_def
        thenAnimate_tracker)

lemma detected_completion:
  "stateOf (case x of Some e \<Rightarrow> Throws e s2 | None \<Rightarrow> Returns d s2) = s2"
  "returned (case x of Some e \<Rightarrow> Throws e s2 | None \<Rightarrow> Returns d s2)
     = (if x = None then Some d else None)"
  by (cases x; simp)+

lemma settle_frame:
  assumes "k < length (frameTasks s)" and "frameTasks s ! k = DetectionPending"
  shows "runFrame inp k s =
           (Some (resumeFacialAnalysisOverlay inp
                    (s\<lparr>frameTasks := take k (frameTasks s) @ drop (Suc k) (frameTasks s)\<rparr>)),
            thenAnimate (resumeFacialAnalysisOverlay inp
                    (s\<lparr>frameTasks := take k (frameTasks s) @ drop (Suc k) (frameTasks s)\<rparr>)))"
  using assms by (simp add: runFrame_def Let_def)

lemma detected_frame:
  assumes "k < length (frameTasks s)" and "frameTasks s ! k = DetectionPending"
    and "settles inp = Resolves (f # fs)" and "extractable f" and "webcam s = Some wh"
    and "faceBoundingBox s \<noteq> None \<or> realLandmarks s \<noteq> []"
  shows "\<exists>s2. extractLandmarks f (updateFaceBoundingBox f
                 (s\<lparr>frameTasks := take k (frameTasks s) @ drop (Suc k) (frameTasks s)\<rparr>))
               = Returns () s2
           \<and> faceBoundingBox (step (Frame k inp) s) = faceBoundingBox s2
           \<and> faceCenter (step (Frame k inp) s) = faceCenter s2
           \<and> realLandmarks (step (Frame k inp) s) = realLandmarks s2
           \<and> smoothedLandmarks (step (Frame k inp) s) = smoothedLandmarks s2
           \<and> map returned (finished (Frame k inp) s) =
               [if drawTrackedFace (canvasThrows inp) (step (Frame k inp) s) = None
                then Some DrewDetected else None]"
proof -
  let ?s0 = "s\<lparr>frameTasks := take k (frameTasks s) @ drop (Suc k) (frameTasks s)\<rparr>"
  have b0: "faceBoundingBox ?s0 \<noteq> None \<or> realLandmarks ?s0 \<noteq> []" using assms(6) by simp
  have cam0: "webcam ?s0 = Some wh" using assms(5) by simp
  from resume_detected [OF b0 assms(3,4) cam0] obtain s2 where
    s2: "extractLandmarks f (updateFaceBoundingBox f ?s0) = Returns () s2"
      "resumeFacialAnalysisOverlay inp ?s0 =
         (case drawTrackedFace (canvasThrows inp) s2 of
            Some e \<Rightarrow> Throws e s2
          | None \<Rightarrow> Returns DrewDetected s2)"
    by blast
  note rf = settle_frame [OF assms(1,2), of inp]
  have fields: "faceBoundingBox (step (Frame k inp) s) = faceBoundingBox s2
      \<and> faceCenter (step (Frame k inp) s) = faceCenter s2
      \<and> realLandmarks (step (Frame k inp) s) = realLandmarks s2
      \<and> smoothedLandmarks (step (Frame k inp) s) = smoothedLandmarks s2
      \<and> map returned (finished (Frame k inp) s) =
               [if drawTrackedFace (canvasThrows inp) (step (Frame k inp) s) = None
                then Some DrewDetected else None]"
    by (simp add: rf s2(2) thenAnimate_tracker draw_thenAnimate detected_completion)
  show ?thesis
    by (rule exI [of _ s2]) (rule conjI [OF s2(1) fields])
qed

lemma update_box_fields:
  assumes "realLandmarks s = map numPoint pts" and "pts \<noteq> []"
    and "faceBoundingBox s = Some old"
  shows "faceBoundingBox (updateFaceBoundingBox f s)
           = Some (spec_smoothBox old (spec_extentsBox pts))"
    and "faceCenter (updateFaceBoundingBox f s)
           = (box_x (spec_smoothBox old (spec_extentsBox pts)),
              box_y (spec_smoothBox old (spec_extentsBox pts)))"
    and "realLandmarks (updateFaceBoundingBox f s) = realLandmarks s"
    and "smoothedLandmarks (updateFaceBoundingBox f s) = smoothedLandmarks s"
    and "webcam (updateFaceBoundingBox f s) = webcam s"
proof -
  have ne: "length (realLandmarks s) > 0" using assms(1,2) by simp
  note nb = new_box_fields [OF assms(1,2)]
  show "faceBoundingBox (updateFaceBoundingBox f s)
           = Some (spec_smoothBox old (spec_extentsBox pts))"
    using update_box_detected [OF assms(1,2), of f] assms(3) by simp
  show "faceCenter (updateFaceBoundingBox f s)
           = (box_x (spec_smoothBox old (spec_extentsBox pts)),
              box_y (spec_smoothBox old (spec_extentsBox pts)))"
    using ne assms(3) by (simp add: updateFaceBoundingBox_def Let_def nb spec_smoothBox_def)
  show "realLandmarks (updateFaceBoundingBox f s) = realLandmarks s"
    and "smoothedLandmarks (updateFaceBoundingBox f s) = smoothedLandmarks s"
    and "webcam (updateFaceBoundingBox f s) = webcam s"
    by (simp_all add: updateFaceBoundingBox_def Let_def)
qed

lemma update_keeps_landmarks:
  "realLandmarks (updateFaceBoundingBox f s) = realLandmarks s"
  "smoothedLandmarks (updateFaceBoundingBox f s) = smoothedLandmarks s"
  "webcam (updateFaceBoundingBox f s) = webcam s"
  by (simp_all add: updateFaceBoundingBox_def Let_def)

lemma extract_smooths:
  assumes "chosenKeypoints f = Some ks" and "mapLandmarks (webcam s) ks = Inr raw"
    and "realLandmarks s \<noteq> []"
  shows "extractLandmarks f s = Returns () (smoothLandmarks raw s)"
  using assms by (simp add: extractLandmarks_def)

lemma smoothLandmarks_fields:
  "smoothedLandmarks (smoothLandmarks raw s) =
     (if smoothedLandmarks s = [] then raw else smoothPoints (smoothedLandmarks s) raw)"
  "realLandmarks (smoothLandmarks raw s) = smoothedLandmarks (smoothLandmarks raw s)"
  by (simp_all add: smoothLandmarks_def Let_def)

lemma detected_frame_landmarks:
  assumes "k < length (frameTasks s)" and "frameTasks s ! k = DetectionPending"
    and "settles inp = Resolves (f # fs)"
    and "chosenKeypoints f = Some ks" and "mapLandmarks (webcam s) ks = Inr raw"
    and "realLandmarks s \<noteq> []"
  shows "smoothedLandmarks (step (Frame k inp) s) = smoothedLandmarks (smoothLandmarks raw s)
         \<and> realLandmarks (step (Frame k inp) s) = smoothedLandmarks (smoothLandmarks raw s)
         \<and> map returned (finished (Frame k inp) s) =
               [if drawTrackedFace (canvasThrows inp) (step (Frame k inp) s) = None
                then Some DrewDetected else None]"
proof -
  let ?s0 = "s\<lparr>frameTasks := take k (frameTasks s) @ drop (Suc k) (frameTasks s)\<rparr>"
  let ?s1 = "updateFaceBoundingBox f ?s0"
  let ?s2 = "smoothLandmarks raw ?s1"
  have ml: "mapLandmarks (webcam ?s1) ks = Inr raw"
    using assms(5) by (simp add: update_keeps_landmarks)
  have ne: "realLandmarks ?s1 \<noteq> []"
    using assms(6) by (simp add: update_keeps_landmarks)
  have ex: "extractLandmarks f ?s1 = Returns () ?s2"
    using extract_smooths [OF assms(4) ml ne] .
  have "faceBoundingBox ?s1 \<noteq> None"
    using assms(6) by (simp add: updateFaceBoundingBox_def Let_def)
  then have b2: "faceBoundingBox ?s2 \<noteq> None"
    by (simp add: smoothLandmarks_def Let_def)
  have pc: "performContinuousFacialDetection (settles inp) ?s0 = (True, ?s2)"
    using assms(3) ex by (simp add: performContinuousFacialDetection_def Let_def)
  have res: "resumeFacialAnalysisOverlay inp ?s0 =
         (case drawTrackedFace (canvasThrows inp) ?s2 of
            Some e \<Rightarrow> Throws e ?s2
          | None \<Rightarrow> Returns DrewDetected ?s2)"
    using pc b2 by (simp add: resumeFacialAnalysisOverlay_def finishFacialAnalysisOverlay_def)
  note rf = settle_frame [OF assms(1,2), of inp]
  have sm: "smoothedLandmarks ?s2 = smoothedLandmarks (smoothLandmarks raw s)"
    by (simp add: smoothLandmarks_fields update_keeps_landmarks)
  have "smoothedLandmarks (step (Frame k inp) s) = smoothedLandmarks ?s2"
    and "realLandmarks (step (Frame k inp) s) = smoothedLandmarks ?s2"
    and "map returned (finished (Frame k inp) s) =
               [if drawTrackedFace (canvasThrows inp) (step (Frame k inp) s) = None
                then Some DrewDetected else None]"
    by (simp_all add: rf res thenAnimate_tracker draw_thenAnimate detected_completion
          smoothLandmarks_fields(2))
  with sm show ?thesis by simp
qed

lemma finish_drew_fallback:
  assumes "finishFacialAnalysisOverlay inp d s1 = Returns DrewFallback s2"
  shows "performFallbackFaceDetection (clock inp) s1 = Returns True s2"
  using assms
  by (auto simp add: finishFacialAnalysisOverlay_def
        split: if_splits option.splits completion.splits)

lemma update_drew_fallback:
  assumes "updateFacialAnalysisOverlay inp s = Finished (Returns DrewFallback s2)"
  shows "\<exists>s1. webcam s1 = webcam s
           \<and> finishFacialAnalysisOverlay inp False s1 = Returns DrewFallback s2"
proof (cases "facialOverlay s")
  case True
  with assms have "finishFacialAnalysisOverlay inp False s = Returns DrewFallback s2"
    by (simp add: updateFacialAnalysisOverlay_def split: if_splits)
  then show ?thesis by blast
next
  case False
  show ?thesis
  proof (cases "webcam s")
    case None
    with False assms show ?thesis
      by (simp add: updateFacialAnalysisOverlay_def setupFacialOverlayCanvas_def Let_def)
  next
    case (Some wh)
    obtain w h where wh: "wh = (w, h)" by (cases wh)
    let ?s0 = "s\<lparr>facialOverlay := True, faceCenter := (Num (real w / 2), Num (real h / 2))\<rparr>"
    from False Some wh assms
    have "finishFacialAnalysisOverlay inp False ?s0 = Returns DrewFallback s2"
      by (simp add: updateFacialAnalysisOverlay_def setupFacialOverlayCanvas_def Let_def
            split: if_splits)
    moreover have "webcam ?s0 = webcam s" by simp
    ultimately show ?thesis by blast
  qed
qed

lemma frame_drew_fallback:
  assumes "list_ex drewFallback (finished (Frame k inp) s)"
  shows "\<exists>s1 s2. webcam s1 = webcam s
           \<and> performFallbackFaceDetection (clock inp) s1 = Returns True s2
           \<and> faceBoundingBox (step (Frame k inp) s) = faceBoundingBox s2
           \<and> realLandmarks (step (Frame k inp) s) = realLandmarks s2
           \<and> smoothedLandmarks (step (Frame k inp) s) = smoothedLandmarks s2"
proof -
  let ?s0 = "s\<lparr>frameTasks := take k (frameTasks s) @ drop (Suc k) (frameTasks s)\<rparr>"
  from assms have k: "k < length (frameTasks s)"
    by (cases "k < length (frameTasks s)") (simp_all add: runFrame_def)
  have fields: "\<And>s2. faceBoundingBox (thenAnimate (Returns DrewFallback s2)) = faceBoundingBox s2
      \<and> realLandmarks (thenAnimate (Returns DrewFallback s2)) = realLandmarks s2
      \<and> smoothedLandmarks (thenAnimate (Returns DrewFallback s2)) = smoothedLandmarks s2"
    by (simp add: animate_def)
  show ?thesis
  proof (cases "frameTasks s ! k")
    case DetectionPending
    obtain d s1 where pc: "performContinuousFacialDetection (settles inp) ?s0 = (d, s1)"
      by (cases "performContinuousFacialDetection (settles inp) ?s0")
    from continuous_session [of "settles inp" ?s0] pc have cam: "webcam s1 = webcam s"
      by (simp add: sessionFields_def)
    note rf = settle_frame [OF k DetectionPending, of inp]
    from assms rf pc obtain s2 where
      c: "finishFacialAnalysisOverlay inp d s1 = Returns DrewFallback s2"
      by (cases "finishFacialAnalysisOverlay inp d s1")
         (auto simp add: resumeFacialAnalysisOverlay_def)
    from finish_drew_fallback [OF c] have fb:
      "performFallbackFaceDetection (clock inp) s1 = Returns True s2" .
    from rf pc c have "step (Frame k inp) s = thenAnimate (Returns DrewFallback s2)"
      by (simp add: resumeFacialAnalysisOverlay_def)
    with fields [of s2] cam fb show ?thesis by metis
  next
    case (FrameRequest ident)
    show ?thesis
    proof (cases "updateFacialAnalysisOverlay inp ?s0")
      case (Suspended s1)
      with assms k FrameRequest show ?thesis by (simp add: runFrame_def Let_def)
    next
      case (Finished c)
      with assms k FrameRequest obtain s2 where c: "c = Returns DrewFallback s2"
        by (cases c) (auto simp add: runFrame_def Let_def)
      from Finished c have "updateFacialAnalysisOverlay inp ?s0 = Finished (Returns DrewFallback s2)"
        by simp
      from update_drew_fallback [OF this] obtain s1 where
        s1: "webcam s1 = webcam s" "finishFacialAnalysisOverlay inp False s1 = Returns DrewFallback s2"
        by auto
      from finish_drew_fallback [OF s1(2)] have fb:
        "performFallbackFaceDetection (clock inp) s1 = Returns True s2" .
      from Finished c k FrameRequest
      have "step (Frame k inp) s = thenAnimate (Returns DrewFallback s2)"
        by (simp add: runFrame_def Let_def)
      with fields [of s2] s1(1) fb show ?thesis by metis
    qed
  qed
qed

lemma fallback_formula:
  assumes "webcam s1 = Some (w, h)" and "0 < w" and "0 < h"
    and "performFallbackFaceDetection now s1 = Returns True s2"
  shows "\<exists>b. b = \<lparr> box_x = Num (real w / 2 + sin (real_of_int now * 0.001 * 0.5) * 10),
                    box_y = Num (real h / 2 + cos (real_of_int now * 0.001 * 0.3) * 5),
                    box_width = Num (min (real w) (real h) * 0.4
                                     + sin (real_of_int now * 0.001 * 0.2) * 5),
                    box_height = Num (min (real w) (real h) * 0.4 * 1.2
                                      + cos (real_of_int now * 0.001 * 0.15) * 8) \<rparr>
           \<and> faceBoundingBox s2 = Some b
           \<and> realLandmarks s2 =
               [ Point (box_x b - box_width b * Num 0.2) (box_y b - box_height b * Num 0.15) (Num 0),
                 Point (box_x b + box_width b * Num 0.2) (box_y b - box_height b * Num 0.15) (Num 0),
                 Point (box_x b) (box_y b) (Num 0),
                 Point (box_x b - box_width b * Num 0.15) (box_y b + box_height b * Num 0.2) (Num 0),
                 Point (box_x b + box_width b * Num 0.15) (box_y b + box_height b * Num 0.2) (Num 0),
                 Point (box_x b) (box_y b + box_height b * Num 0.35) (Num 0) ]
           \<and> smoothedLandmarks s2 = realLandmarks s2"
  using assms
  by (auto simp add: performFallbackFaceDetection_def createBasicLandmarksFromBoundingBox_def
        Let_def)


text \<open>The piece that starts a frame does not read how the detector's promise settles.\<close>

lemma request_ignores_detector:
  assumes "k < length (frameTasks s)" and "frameTasks s ! k = FrameRequest ident"
  shows "runFrame (inp\<lparr>settles := det\<rparr>) k s = runFrame inp k s"
proof -
  have "\<And>s0. finishFacialAnalysisOverlay (inp\<lparr>settles := det\<rparr>) False s0
            = finishFacialAnalysisOverlay inp False s0"
    by (simp add: finishFacialAnalysisOverlay_def split: completion.split)
  then have "\<And>s0. updateFacialAnalysisOverlay (inp\<lparr>settles := det\<rparr>) s0
            = updateFacialAnalysisOverlay inp s0"
    by (simp add: updateFacialAnalysisOverlay_def split: completion.split)
  with assms show ?thesis by (simp add: runFrame_def Let_def)
qed

text \<open>The first two raw frames given to \<^verbatim>\<open>smoothLandmarks\<close> on a mirror without
  smoothed landmarks: the first is stored as it is, and a second one that differs from it
  by \<open>(d0, d1, d2)\<close> at an index moves the smoothed point there by 0.7 times that
  difference.\<close>

lemma first_two_frames_move_by_delta_alpha:
  assumes "smoothedLandmarks s = []" and "raw1 \<noteq> []"
    and "i < length raw1" and "i < length raw2"
    and "raw1 ! i = Point (Num b0) (Num b1) (Num b2)"
    and "raw2 ! i = Point (Num (b0 + d0)) (Num (b1 + d1)) (Num (b2 + d2))"
  shows "smoothedLandmarks (smoothLandmarks raw1 s) ! i = Point (Num b0) (Num b1) (Num b2)
         \<and> smoothedLandmarks (smoothLandmarks raw2 (smoothLandmarks raw1 s)) ! i =
             Point (Num (b0 + d0 * 0.7)) (Num (b1 + d1 * 0.7)) (Num (b2 + d2 * 0.7))"
  using assms
  by (simp add: smoothLandmarks_def Let_def smoothPoints_nth smoothPoint_def
        landmarkSmoothingFactor_def)

lemma constructor_landmarks_numeric: "numericLandmarks (newMirror cam detector recog)"
  by (simp add: numericLandmarks_def newMirror_def)

subsection \<open>Landmark tracker: results\<close>

text \<open>
  Claim C6, as stated, fails in both tracking modes. The mirror is in its first analysis,
  with a 640 by 480 video and a loaded detector. In its first frame the detector resolves
  with no face and the frame is drawn in fallback mode at clock 0: the box stored is 192
  wide and centred at (320, 245), while the six landmarks derived from it span only 76.8
  in x and their extents box is centred at (320, 268.84); \<^verbatim>\<open>faceCenter\<close> is still
  the video centre (320, 240). In the second frame the detector resolves with a face of
  two keypoints and the frame is drawn in detected mode: the box has moved 0.3 of the way
  towards the extents of the landmarks of the first frame and is 157.44 wide, while the
  landmarks that the frame stores span 93.04.
\<close>

theorem box_differs_from_extents_counterexample:
  "map returned (outcomes [Frame 0 noFaceAt0, Frame 0 noFaceAt0, Frame 0 noFaceAt0,
                           Frame 0 sampleFaceAt33] analysingMirror)
     = [Some DrewFallback, Some DrewDetected]
   \<and> faceBoundingBox fallbackPending
     = Some \<lparr> box_x = Num 320, box_y = Num 245, box_width = Num 192, box_height = Num 238.4 \<rparr>
   \<and> smoothedLandmarks fallbackPending
     = map numPoint [(281.6, 209.24, 0), (358.4, 209.24, 0), (320, 245, 0),
                     (291.2, 292.68, 0), (348.8, 292.68, 0), (320, 328.44, 0)]
   \<and> spec_extentsBox [(281.6, 209.24, 0), (358.4, 209.24, 0), (320, 245, 0),
                     (291.2, 292.68, 0), (348.8, 292.68, 0), (320, 328.44, 0)]
     = \<lparr> box_x = Num 320, box_y = Num 268.84, box_width = Num 76.8, box_height = Num 119.2 \<rparr>
   \<and> faceCenter fallbackPending = (Num 320, Num 240)
   \<and> faceBoundingBox (step (Frame 0 sampleFaceAt33) fallbackPending)
     = Some \<lparr> box_x = Num 320, box_y = Num 252.152, box_width = Num 157.44,
              box_height = Num 202.64 \<rparr>
   \<and> smoothedLandmarks (step (Frame 0 sampleFaceAt33) fallbackPending)
     = map numPoint [(154.48, 132.772, 0), (247.52, 272.772, 0)]
   \<and> spec_extentsBox [(154.48, 132.772, 0), (247.52, 272.772, 0)]
     = \<lparr> box_x = Num 201, box_y = Num 202.772, box_width = Num 93.04, box_height = Num 140 \<rparr>"
proof -
  have o: "map returned (outcomes [Frame 0 noFaceAt0, Frame 0 noFaceAt0, Frame 0 noFaceAt0,
                           Frame 0 sampleFaceAt33] analysingMirror)
     = [Some DrewFallback, Some DrewDetected]"
    by (simp add: analysingMirror_eq tracker_defs Let_def numPoint_def)
  have a: "faceBoundingBox fallbackPending
     = Some \<lparr> box_x = Num 320, box_y = Num 245, box_width = Num 192, box_height = Num 238.4 \<rparr>"
    and b: "smoothedLandmarks fallbackPending = map numPoint [(281.6, 209.24, 0), (358.4, 209.24, 0), (320, 245, 0),
                     (291.2, 292.68, 0), (348.8, 292.68, 0), (320, 328.44, 0)]"
    and c: "faceCenter fallbackPending = (Num 320, Num 240)"
    by (simp_all add: fallbackPending_eq analysingMirror_eq)
  have d: "spec_extentsBox [(281.6, 209.24, 0), (358.4, 209.24, 0), (320, 245, 0),
                     (291.2, 292.68, 0), (348.8, 292.68, 0), (320, 328.44, 0)]
     = \<lparr> box_x = Num 320, box_y = Num 268.84, box_width = Num 76.8, box_height = Num 119.2 \<rparr>"
    and e: "spec_extentsBox [(154.48, 132.772, 0), (247.52, 272.772, 0)]
     = \<lparr> box_x = Num 201, box_y = Num 202.772, box_width = Num 93.04, box_height = Num 140 \<rparr>"
    by (simp_all add: spec_extentsBox_def Let_def)
  have f: "faceBoundingBox (step (Frame 0 sampleFaceAt33) fallbackPending)
     = Some \<lparr> box_x = Num 320, box_y = Num 252.152, box_width = Num 157.44,
              box_height = Num 202.64 \<rparr>"
    and g: "smoothedLandmarks (step (Frame 0 sampleFaceAt33) fallbackPending)
     = map numPoint [(154.48, 132.772, 0), (247.52, 272.772, 0)]"
    by (simp_all add: fallbackPending_eq analysingMirror_eq tracker_defs Let_def numPoint_def)
  from o a b c d e f g show ?thesis by simp
qed

text \<open>
  Claim C6, amended. Take a mirror with a video of positive size and the piece of a frame
  that runs when the detector's promise settles. If the promise resolves with a face whose
  extraction does not throw while the mirror stores a non-empty list \<open>pts\<close> of numeric
  landmarks and a box \<open>old\<close>, then after the frame every field of the box has moved 0.3
  of the way from \<open>old\<close> towards the min/max extents box of \<open>pts\<close>, the landmarks
  stored before the frame; \<^verbatim>\<open>faceCenter\<close> is the centre of the new box; the frame is
  drawn in detected mode unless one of its drawing calls throws; and when the face has
  keypoints, the landmarks stored after the frame are the keypoints' pixel positions
  smoothed into the previous smoothed landmarks. If a frame is drawn in fallback mode,
  its box is the function of the clock and the video size written out below, and the six
  stored landmarks are computed from that box, the third being its centre.
\<close>

theorem box_smoothed_towards_landmark_extents:
  assumes "webcam s = Some (w, h)" and "0 < w" and "0 < h"
  shows "(k < length (frameTasks s) \<and> frameTasks s ! k = DetectionPending
            \<and> settles inp = Resolves (f # fs) \<and> extractable f
            \<and> realLandmarks s = map numPoint pts \<and> pts \<noteq> []
            \<and> faceBoundingBox s = Some old
          \<longrightarrow> faceBoundingBox (step (Frame k inp) s)
                = Some (spec_smoothBox old (spec_extentsBox pts))
              \<and> faceCenter (step (Frame k inp) s)
                = (box_x (spec_smoothBox old (spec_extentsBox pts)),
                   box_y (spec_smoothBox old (spec_extentsBox pts)))
              \<and> map returned (finished (Frame k inp) s)
                = [if drawTrackedFace (canvasThrows inp) (step (Frame k inp) s) = None
                   then Some DrewDetected else None]
              \<and> (chosenKeypoints f = Some ks \<and> mapLandmarks (Some (w, h)) ks = Inr raw
                  \<longrightarrow> smoothedLandmarks (step (Frame k inp) s)
                        = smoothedLandmarks (smoothLandmarks raw s)
                      \<and> realLandmarks (step (Frame k inp) s)
                        = smoothedLandmarks (step (Frame k inp) s)))
         \<and> (list_ex drewFallback (finished (Frame k inp) s)
            \<longrightarrow> (\<exists>b. b = \<lparr> box_x = Num (real w / 2
                                          + sin (real_of_int (clock inp) * 0.001 * 0.5) * 10),
                            box_y = Num (real h / 2
                                          + cos (real_of_int (clock inp) * 0.001 * 0.3) * 5),
                            box_width = Num (min (real w) (real h) * 0.4
                                          + sin (real_of_int (clock inp) * 0.001 * 0.2) * 5),
                            box_height = Num (min (real w) (real h) * 0.4 * 1.2
                                          + cos (real_of_int (clock inp) * 0.001 * 0.15) * 8) \<rparr>
                   \<and> faceBoundingBox (step (Frame k inp) s) = Some b
                   \<and> smoothedLandmarks (step (Frame k inp) s) =
                       [ Point (box_x b - box_width b * Num 0.2)
                               (box_y b - box_height b * Num 0.15) (Num 0),
                         Point (box_x b + box_width b * Num 0.2)
                               (box_y b - box_height b * Num 0.15) (Num 0),
                         Point (box_x b) (box_y b) (Num 0),
                         Point (box_x b - box_width b * Num 0.15)
                               (box_y b + box_height b * Num 0.2) (Num 0),
                         Point (box_x b + box_width b * Num 0.15)
                               (box_y b + box_height b * Num 0.2) (Num 0),
                         Point (box_x b) (box_y b + box_height b * Num 0.35) (Num 0) ]
                   \<and> realLandmarks (step (Frame k inp) s)
                       = smoothedLandmarks (step (Frame k inp) s)))"
proof (intro conjI impI)
  assume a: "k < length (frameTasks s) \<and> frameTasks s ! k = DetectionPending
            \<and> settles inp = Resolves (f # fs) \<and> extractable f
            \<and> realLandmarks s = map numPoint pts \<and> pts \<noteq> []
            \<and> faceBoundingBox s = Some old"
  let ?s0 = "s\<lparr>frameTasks := take k (frameTasks s) @ drop (Suc k) (frameTasks s)\<rparr>"
  from a have k: "k < length (frameTasks s)" and p: "frameTasks s ! k = DetectionPending"
    and d: "settles inp = Resolves (f # fs)" and e: "extractable f"
    and lm: "realLandmarks s = map numPoint pts" and ne: "pts \<noteq> []"
    and box: "faceBoundingBox s = Some old"
    by simp_all
  from box have bl: "faceBoundingBox s \<noteq> None \<or> realLandmarks s \<noteq> []" by simp
  from detected_frame [OF k p d e assms(1) bl] obtain s2 where
    df: "extractLandmarks f (updateFaceBoundingBox f ?s0) = Returns () s2
      \<and> faceBoundingBox (step (Frame k inp) s) = faceBoundingBox s2
      \<and> faceCenter (step (Frame k inp) s) = faceCenter s2
      \<and> realLandmarks (step (Frame k inp) s) = realLandmarks s2
      \<and> smoothedLandmarks (step (Frame k inp) s) = smoothedLandmarks s2
      \<and> map returned (finished (Frame k inp) s) =
         [if drawTrackedFace (canvasThrows inp) (step (Frame k inp) s) = None
          then Some DrewDetected else None]" ..
  note s2 = df [THEN conjunct1] df [THEN conjunct2, THEN conjunct1]
    df [THEN conjunct2, THEN conjunct2, THEN conjunct1]
    df [THEN conjunct2, THEN conjunct2, THEN conjunct2, THEN conjunct2, THEN conjunct2]
  have lm0: "realLandmarks ?s0 = map numPoint pts" using lm by simp
  have box0: "faceBoundingBox ?s0 = Some old" using box by simp
  note ub = update_box_fields(1,2) [OF lm0 ne box0, of f]
  from extract_keeps_box [of f "updateFaceBoundingBox f ?s0"] s2(1)
  have kb: "faceBoundingBox s2 = faceBoundingBox (updateFaceBoundingBox f ?s0)"
    "faceCenter s2 = faceCenter (updateFaceBoundingBox f ?s0)"
    by simp_all
  show "faceBoundingBox (step (Frame k inp) s)
          = Some (spec_smoothBox old (spec_extentsBox pts))"
    using s2(2) kb(1) ub(1) by simp
  show "faceCenter (step (Frame k inp) s)
          = (box_x (spec_smoothBox old (spec_extentsBox pts)),
             box_y (spec_smoothBox old (spec_extentsBox pts)))"
    using s2(3) kb(2) ub(2) by simp
  show "map returned (finished (Frame k inp) s)
          = [if drawTrackedFace (canvasThrows inp) (step (Frame k inp) s) = None
             then Some DrewDetected else None]"
    using s2(4) .
  {
    assume c: "chosenKeypoints f = Some ks \<and> mapLandmarks (Some (w, h)) ks = Inr raw"
    then have ck: "chosenKeypoints f = Some ks" and ml: "mapLandmarks (webcam s) ks = Inr raw"
      using assms(1) by simp_all
    from lm ne have nl: "realLandmarks s \<noteq> []" by simp
    note dl = detected_frame_landmarks [OF k p d ck ml nl]
    from dl show "smoothedLandmarks (step (Frame k inp) s)
        = smoothedLandmarks (smoothLandmarks raw s)"
      by simp
    from dl show "realLandmarks (step (Frame k inp) s)
        = smoothedLandmarks (step (Frame k inp) s)"
      by simp
  }
next
  assume fb: "list_ex drewFallback (finished (Frame k inp) s)"
  from frame_drew_fallback [OF fb] obtain s1 s2 where
    s: "webcam s1 = webcam s"
      "performFallbackFaceDetection (clock inp) s1 = Returns True s2"
      "faceBoundingBox (step (Frame k inp) s) = faceBoundingBox s2"
      "realLandmarks (step (Frame k inp) s) = realLandmarks s2"
      "smoothedLandmarks (step (Frame k inp) s) = smoothedLandmarks s2"
    by blast
  from s(1) assms(1) have cam: "webcam s1 = Some (w, h)" by simp
  from fallback_formula [OF cam assms(2,3) s(2)] s(3,4,5)
  show "\<exists>b. b = \<lparr> box_x = Num (real w / 2
                                          + sin (real_of_int (clock inp) * 0.001 * 0.5) * 10),
                            box_y = Num (real h / 2
                                          + cos (real_of_int (clock inp) * 0.001 * 0.3) * 5),
                            box_width = Num (min (real w) (real h) * 0.4
                                          + sin (real_of_int (clock inp) * 0.001 * 0.2) * 5),
                            box_height = Num (min (real w) (real h) * 0.4 * 1.2
                                          + cos (real_of_int (clock inp) * 0.001 * 0.15) * 8) \<rparr>
                   \<and> faceBoundingBox (step (Frame k inp) s) = Some b
                   \<and> smoothedLandmarks (step (Frame k inp) s) =
                       [ Point (box_x b - box_width b * Num 0.2)
                               (box_y b - box_height b * Num 0.15) (Num 0),
                         Point (box_x b + box_width b * Num 0.2)
                               (box_y b - box_height b * Num 0.15) (Num 0),
                         Point (box_x b) (box_y b) (Num 0),
                         Point (box_x b - box_width b * Num 0.15)
                               (box_y b + box_height b * Num 0.2) (Num 0),
                         Point (box_x b + box_width b * Num 0.15)
                               (box_y b + box_height b * Num 0.2) (Num 0),
                         Point (box_x b) (box_y b + box_height b * Num 0.35) (Num 0) ]
                   \<and> realLandmarks (step (Frame k inp) s)
                       = smoothedLandmarks (step (Frame k inp) s)"
    by simp
qed

theorem box_smoothed_towards_landmark_extents_witness:
  "webcam fallbackPending = Some (640, 480)
   \<and> frameTasks fallbackPending = [DetectionPending]
   \<and> settles sampleFaceAt33 = Resolves [sampleFace]
   \<and> extractable sampleFace
   \<and> realLandmarks fallbackPending = map numPoint [(281.6, 209.24, 0), (358.4, 209.24, 0), (320, 245, 0),
                     (291.2, 292.68, 0), (348.8, 292.68, 0), (320, 328.44, 0)]
   \<and> faceBoundingBox fallbackPending
       = Some \<lparr> box_x = Num 320, box_y = Num 245, box_width = Num 192, box_height = Num 238.4 \<rparr>
   \<and> faceBoundingBox (step (Frame 0 sampleFaceAt33) fallbackPending)
       = Some \<lparr> box_x = Num 320, box_y = Num 252.152, box_width = Num 157.44,
                box_height = Num 202.64 \<rparr>
   \<and> faceCenter (step (Frame 0 sampleFaceAt33) fallbackPending) = (Num 320, Num 252.152)
   \<and> map returned (finished (Frame 0 sampleFaceAt33) fallbackPending) = [Some DrewDetected]
   \<and> realLandmarks (step (Frame 0 sampleFaceAt33) fallbackPending)
       = map numPoint [(154.48, 132.772, 0), (247.52, 272.772, 0)]
   \<and> list_ex drewFallback (finished (Frame 0 noFaceAt0) fallbackPending)
   \<and> faceBoundingBox (step (Frame 0 noFaceAt0) fallbackPending)
       = Some \<lparr> box_x = Num 320, box_y = Num 245, box_width = Num 192, box_height = Num 238.4 \<rparr>
   \<and> realLandmarks (step (Frame 0 noFaceAt0) fallbackPending) = map numPoint [(281.6, 209.24, 0), (358.4, 209.24, 0), (320, 245, 0),
                     (291.2, 292.68, 0), (348.8, 292.68, 0), (320, 328.44, 0)]"
proof -
  let ?pts = "[(281.6, 209.24, 0), (358.4, 209.24, 0), (320, 245, 0),
                     (291.2, 292.68, 0), (348.8, 292.68, 0), (320, 328.44, 0)] :: (real \<times> real \<times> real) list"
  let ?old = "\<lparr> box_x = Num 320, box_y = Num 245, box_width = Num 192, box_height = Num 238.4 \<rparr>"
  let ?ks = "[KObject (Some 100) (Some 100) None, KObject (Some 200) (Some 300) None]"
  let ?raw = "[Point (Num 100) (Num 100) (Num 0), Point (Num 200) (Num 300) (Num 0)]"
  have h1: "webcam fallbackPending = Some (640, 480)"
    and t: "frameTasks fallbackPending = [DetectionPending]"
    and lm: "realLandmarks fallbackPending = map numPoint ?pts"
    and sl: "smoothedLandmarks fallbackPending = map numPoint ?pts"
    and box: "faceBoundingBox fallbackPending = Some ?old"
    by (simp_all add: fallbackPending_eq analysingMirror_eq)
  have h2: "(0::nat) < 640" and h3: "(0::nat) < 480" by simp_all
  have d: "settles sampleFaceAt33 = Resolves [sampleFace]" by (simp add: sampleFaceAt33_def)
  have ck: "chosenKeypoints sampleFace = Some ?ks"
    by (simp add: chosenKeypoints_def present_def sampleFace_def)
  have e: "extractable sampleFace" by (simp add: extractable_def ck)
  have ml: "mapLandmarks (Some (640, 480)) ?ks = Inr ?raw" by (simp add: toPixels_def)
  have hyp: "0 < length (frameTasks fallbackPending)
      \<and> frameTasks fallbackPending ! 0 = DetectionPending
      \<and> settles sampleFaceAt33 = Resolves [sampleFace] \<and> extractable sampleFace
      \<and> realLandmarks fallbackPending = map numPoint ?pts \<and> ?pts \<noteq> []
      \<and> faceBoundingBox fallbackPending = Some ?old"
    using t d e lm box by simp
  note th = box_smoothed_towards_landmark_extents [OF h1 h2 h3,
      where k = 0 and inp = sampleFaceAt33 and f = sampleFace and fs = "[]" and pts = ?pts
        and old = ?old and ks = ?ks and raw = ?raw]
  from th hyp ck ml
  have c1: "faceBoundingBox (step (Frame 0 sampleFaceAt33) fallbackPending)
              = Some (spec_smoothBox ?old (spec_extentsBox ?pts))"
    and c2: "faceCenter (step (Frame 0 sampleFaceAt33) fallbackPending)
              = (box_x (spec_smoothBox ?old (spec_extentsBox ?pts)),
                 box_y (spec_smoothBox ?old (spec_extentsBox ?pts)))"
    and c3: "map returned (finished (Frame 0 sampleFaceAt33) fallbackPending)
              = [if drawTrackedFace (canvasThrows sampleFaceAt33)
                      (step (Frame 0 sampleFaceAt33) fallbackPending) = None
                 then Some DrewDetected else None]"
    and c4: "smoothedLandmarks (step (Frame 0 sampleFaceAt33) fallbackPending)
              = smoothedLandmarks (smoothLandmarks ?raw fallbackPending)"
    and c5: "realLandmarks (step (Frame 0 sampleFaceAt33) fallbackPending)
              = smoothedLandmarks (step (Frame 0 sampleFaceAt33) fallbackPending)"
    by blast+
  have sb: "spec_smoothBox ?old (spec_extentsBox ?pts)
      = \<lparr> box_x = Num 320, box_y = Num 252.152, box_width = Num 157.44,
          box_height = Num 202.64 \<rparr>"
    by (simp add: spec_smoothBox_def spec_extentsBox_def Let_def)
  have sm: "smoothedLandmarks (smoothLandmarks ?raw fallbackPending)
      = map numPoint [(154.48, 132.772, 0), (247.52, 272.772, 0)]"
    by (simp add: smoothLandmarks_def Let_def sl smoothPoint_def landmarkSmoothingFactor_def
          numPoint_def)
  from c4 c5 sm have r5: "realLandmarks (step (Frame 0 sampleFaceAt33) fallbackPending)
       = map numPoint [(154.48, 132.772, 0), (247.52, 272.772, 0)]"
    by simp
  then have "length (realLandmarks (step (Frame 0 sampleFaceAt33) fallbackPending)) < 468"
    by simp
  then have "drawTrackedFace (canvasThrows sampleFaceAt33)
      (step (Frame 0 sampleFaceAt33) fallbackPending) = None"
    by (rule few_landmarks_draw)
  with c3 have r3: "map returned (finished (Frame 0 sampleFaceAt33) fallbackPending)
      = [Some DrewDetected]"
    by simp
  from c1 sb have r1: "faceBoundingBox (step (Frame 0 sampleFaceAt33) fallbackPending)
       = Some \<lparr> box_x = Num 320, box_y = Num 252.152, box_width = Num 157.44,
                box_height = Num 202.64 \<rparr>"
    by simp
  from c2 sb have r2: "faceCenter (step (Frame 0 sampleFaceAt33) fallbackPending)
       = (Num 320, Num 252.152)"
    by simp
  have fb: "list_ex drewFallback (finished (Frame 0 noFaceAt0) fallbackPending)"
    by (simp add: fallbackPending_eq analysingMirror_eq tracker_defs Let_def numPoint_def)
  note th2 = box_smoothed_towards_landmark_extents [OF h1 h2 h3,
      where k = 0 and inp = noFaceAt0]
  from th2 fb obtain b where
    b: "b = \<lparr> box_x = Num (real (640::nat) / 2
                            + sin (real_of_int (clock noFaceAt0) * 0.001 * 0.5) * 10),
              box_y = Num (real (480::nat) / 2
                            + cos (real_of_int (clock noFaceAt0) * 0.001 * 0.3) * 5),
              box_width = Num (min (real (640::nat)) (real (480::nat)) * 0.4
                            + sin (real_of_int (clock noFaceAt0) * 0.001 * 0.2) * 5),
              box_height = Num (min (real (640::nat)) (real (480::nat)) * 0.4 * 1.2
                            + cos (real_of_int (clock noFaceAt0) * 0.001 * 0.15) * 8) \<rparr>"
      "faceBoundingBox (step (Frame 0 noFaceAt0) fallbackPending) = Some b"
      "smoothedLandmarks (step (Frame 0 noFaceAt0) fallbackPending) =
                       [ Point (box_x b - box_width b * Num 0.2)
                               (box_y b - box_height b * Num 0.15) (Num 0),
                         Point (box_x b + box_width b * Num 0.2)
                               (box_y b - box_height b * Num 0.15) (Num 0),
                         Point (box_x b) (box_y b) (Num 0),
                         Point (box_x b - box_width b * Num 0.15)
                               (box_y b + box_height b * Num 0.2) (Num 0),
                         Point (box_x b + box_width b * Num 0.15)
                               (box_y b + box_height b * Num 0.2) (Num 0),
                         Point (box_x b) (box_y b + box_height b * Num 0.35) (Num 0) ]"
      "realLandmarks (step (Frame 0 noFaceAt0) fallbackPending)
         = smoothedLandmarks (step (Frame 0 noFaceAt0) fallbackPending)"
    by blast
  from b(1) have bv: "b = ?old" by (simp add: noFaceAt0_def)
  from b(2) bv have r6: "faceBoundingBox (step (Frame 0 noFaceAt0) fallbackPending) = Some ?old"
    by simp
  from b(3,4) bv have r7: "realLandmarks (step (Frame 0 noFaceAt0) fallbackPending)
      = map numPoint ?pts"
    by (simp add: numPoint_def)
  from h1 t d e lm box r1 r2 r3 r5 fb r6 r7 show ?thesis by simp
qed



text \<open>
  Claim C8, as stated, fails: the smoothed point moves by 0.7 times its distance to the
  new raw point, not by 0.7 times the difference of two consecutive raw frames. In the
  sample session the detector delivers the sample face and then the same face moved by
  10 in x: the raw first landmark goes from (100, 100) to (110, 100), while the stored
  one goes from (154.48, 132.772) to (123.344, 109.8316), a move of -31.136 in x where
  the claim has 7. Likewise for \<^verbatim>\<open>smoothLandmarks\<close> alone, from a mirror without
  landmarks: the raw x values 0, 10, 20 are stored as 0, 7, 16.1, so the third frame
  moves the stored value by 9.1.
\<close>

theorem smoothing_differs_from_delta_alpha_counterexample:
  "mapLandmarks (Some (640, 480)) [KObject (Some 100) (Some 100) None,
                                   KObject (Some 200) (Some 300) None]
     = Inr (map numPoint [(100, 100, 0), (200, 300, 0)])
   \<and> mapLandmarks (Some (640, 480)) [KObject (Some 110) (Some 100) None,
                                     KObject (Some 210) (Some 300) None]
     = Inr (map numPoint [(110, 100, 0), (210, 300, 0)])
   \<and> smoothedLandmarks detectedPending
     = map numPoint [(154.48, 132.772, 0), (247.52, 272.772, 0)]
   \<and> smoothedLandmarks (step (Frame 0 movedFaceAt66) detectedPending)
     = map numPoint [(123.344, 109.8316, 0), (221.256, 291.8316, 0)]
   \<and> (123.344 :: real) - 154.48 \<noteq> (110 - 100) * 0.7
   \<and> smoothedLandmarks (smoothLandmarks [numPoint (10, 0, 0)]
        (smoothLandmarks [numPoint (0, 0, 0)] (newMirror None False False)))
     = [numPoint (7, 0, 0)]
   \<and> smoothedLandmarks (smoothLandmarks [numPoint (20, 0, 0)]
        (smoothLandmarks [numPoint (10, 0, 0)]
          (smoothLandmarks [numPoint (0, 0, 0)] (newMirror None False False))))
     = [numPoint (16.1, 0, 0)]
   \<and> (16.1 :: real) - 7 \<noteq> (20 - 10) * 0.7"
proof -
  have a: "mapLandmarks (Some (640, 480)) [KObject (Some 100) (Some 100) None,
                                   KObject (Some 200) (Some 300) None]
     = Inr (map numPoint [(100, 100, 0), (200, 300, 0)])"
    and b: "mapLandmarks (Some (640, 480)) [KObject (Some 110) (Some 100) None,
                                     KObject (Some 210) (Some 300) None]
     = Inr (map numPoint [(110, 100, 0), (210, 300, 0)])"
    by (simp_all add: toPixels_def numPoint_def)
  have c: "smoothedLandmarks detectedPending
     = map numPoint [(154.48, 132.772, 0), (247.52, 272.772, 0)]"
    by (simp add: detectedPending_eq)
  have d: "smoothedLandmarks (step (Frame 0 movedFaceAt66) detectedPending)
     = map numPoint [(123.344, 109.8316, 0), (221.256, 291.8316, 0)]"
    by (simp add: detectedPending_eq analysingMirror_eq tracker_defs Let_def numPoint_def)
  have e: "smoothedLandmarks (smoothLandmarks [numPoint (10, 0, 0)]
        (smoothLandmarks [numPoint (0, 0, 0)] (newMirror None False False)))
     = [numPoint (7, 0, 0)]"
    and f: "smoothedLandmarks (smoothLandmarks [numPoint (20, 0, 0)]
        (smoothLandmarks [numPoint (10, 0, 0)]
          (smoothLandmarks [numPoint (0, 0, 0)] (newMirror None False False))))
     = [numPoint (16.1, 0, 0)]"
    by (simp_all add: smoothLandmarks_def smoothPoint_def landmarkSmoothingFactor_def Let_def
          newMirror_def numPoint_def)
  from a b c d e f show ?thesis by simp
qed

text \<open>
  Claim C8, amended. Take the piece of a frame in which the detector's promise resolves
  with a face that has keypoints, on a mirror that stores landmarks, and let \<open>raw\<close> be
  the pixel positions of the keypoints. At every index \<open>i\<close> that \<open>raw\<close> and the stored
  smoothed landmarks both have, with numeric points there, the frame stores
  \<open>smoothed + (raw - smoothed) * 0.7\<close> in each of the three coordinates, 0.7 being
  \<^verbatim>\<open>landmarkSmoothingFactor\<close>; the result is also what \<^verbatim>\<open>realLandmarks\<close> holds, and
  it has one point for each keypoint. The move of the stored point is 0.7 times the
  difference between the raw point and a point \<open>q\<close> exactly when \<open>q\<close> is the stored
  point itself.
\<close>

theorem smoothing_moves_by_factor:
  assumes "k < length (frameTasks s)" and "frameTasks s ! k = DetectionPending"
    and "settles inp = Resolves (f # fs)"
    and "chosenKeypoints f = Some ks" and "mapLandmarks (webcam s) ks = Inr raw"
    and "realLandmarks s \<noteq> []"
    and "i < length raw" and "i < length (smoothedLandmarks s)"
    and "smoothedLandmarks s ! i = Point (Num a0) (Num a1) (Num a2)"
    and "raw ! i = Point (Num r0) (Num r1) (Num r2)"
  shows "smoothedLandmarks (step (Frame k inp) s) ! i =
           Point (Num (a0 + (r0 - a0) * 0.7)) (Num (a1 + (r1 - a1) * 0.7))
                 (Num (a2 + (r2 - a2) * 0.7))
         \<and> realLandmarks (step (Frame k inp) s) = smoothedLandmarks (step (Frame k inp) s)
         \<and> length (smoothedLandmarks (step (Frame k inp) s)) = length raw
         \<and> landmarkSmoothingFactor = 0.7
         \<and> ((a0 + (r0 - a0) * 0.7 - a0 = (r0 - q0) * 0.7
              \<and> a1 + (r1 - a1) * 0.7 - a1 = (r1 - q1) * 0.7
              \<and> a2 + (r2 - a2) * 0.7 - a2 = (r2 - q2) * 0.7)
             = (a0 = q0 \<and> a1 = q1 \<and> a2 = q2))"
proof -
  note dl = detected_frame_landmarks [OF assms(1-6)]
  from assms(8) have ne: "smoothedLandmarks s \<noteq> []" by auto
  have sm: "smoothedLandmarks (smoothLandmarks raw s) = smoothPoints (smoothedLandmarks s) raw"
    using ne by (simp add: smoothLandmarks_fields)
  have p: "smoothPoints (smoothedLandmarks s) raw ! i =
           Point (Num (a0 + (r0 - a0) * 0.7)) (Num (a1 + (r1 - a1) * 0.7))
                 (Num (a2 + (r2 - a2) * 0.7))"
    using assms(7-10)
    by (simp add: smoothPoints_nth smoothPoint_def landmarkSmoothingFactor_def)
  have ar: "(a0 + (r0 - a0) * 0.7 - a0 = (r0 - q0) * 0.7
              \<and> a1 + (r1 - a1) * 0.7 - a1 = (r1 - q1) * 0.7
              \<and> a2 + (r2 - a2) * 0.7 - a2 = (r2 - q2) * 0.7)
             = (a0 = q0 \<and> a1 = q1 \<and> a2 = q2)"
    by auto
  from dl sm p ar show ?thesis
    by (simp add: smoothPoints_length landmarkSmoothingFactor_def)
qed

theorem smoothing_moves_by_factor_witness:
  "frameTasks detectedPending = [DetectionPending]
   \<and> settles movedFaceAt66 = Resolves [movedFace]
   \<and> chosenKeypoints movedFace
       = Some [KObject (Some 110) (Some 100) None, KObject (Some 210) (Some 300) None]
   \<and> mapLandmarks (webcam detectedPending)
        [KObject (Some 110) (Some 100) None, KObject (Some 210) (Some 300) None]
       = Inr [Point (Num 110) (Num 100) (Num 0), Point (Num 210) (Num 300) (Num 0)]
   \<and> smoothedLandmarks detectedPending
       = [Point (Num 154.48) (Num 132.772) (Num 0), Point (Num 247.52) (Num 272.772) (Num 0)]
   \<and> realLandmarks detectedPending = smoothedLandmarks detectedPending
   \<and> smoothedLandmarks (step (Frame 0 movedFaceAt66) detectedPending) ! 0
       = Point (Num 123.344) (Num 109.8316) (Num 0)
   \<and> realLandmarks (step (Frame 0 movedFaceAt66) detectedPending)
       = smoothedLandmarks (step (Frame 0 movedFaceAt66) detectedPending)"
proof -
  let ?ks = "[KObject (Some 110) (Some 100) None, KObject (Some 210) (Some 300) None]"
  let ?raw = "[Point (Num 110) (Num 100) (Num 0), Point (Num 210) (Num 300) (Num 0)]"
  have t: "frameTasks detectedPending = [DetectionPending]"
    and sl: "smoothedLandmarks detectedPending
       = [Point (Num 154.48) (Num 132.772) (Num 0), Point (Num 247.52) (Num 272.772) (Num 0)]"
    and rl: "realLandmarks detectedPending = smoothedLandmarks detectedPending"
    and cam: "webcam detectedPending = Some (640, 480)"
    by (simp_all add: detectedPending_eq analysingMirror_eq numPoint_def)
  have h1: "0 < length (frameTasks detectedPending)"
    and h2: "frameTasks detectedPending ! 0 = DetectionPending"
    using t by simp_all
  have h3: "settles movedFaceAt66 = Resolves [movedFace]" by (simp add: movedFaceAt66_def)
  have h4: "chosenKeypoints movedFace = Some ?ks"
    by (simp add: chosenKeypoints_def present_def movedFace_def)
  have h5: "mapLandmarks (webcam detectedPending) ?ks = Inr ?raw"
    by (simp add: cam toPixels_def)
  have h6: "realLandmarks detectedPending \<noteq> []" using rl sl by simp
  have h7: "0 < length ?raw" by simp
  have h8: "0 < length (smoothedLandmarks detectedPending)" using sl by simp
  have h9: "smoothedLandmarks detectedPending ! 0 = Point (Num 154.48) (Num 132.772) (Num 0)"
    using sl by simp
  have h10: "?raw ! 0 = Point (Num 110) (Num 100) (Num 0)" by simp
  note th = smoothing_moves_by_factor [OF h1 h2 h3 h4 h5 h6 h7 h8 h9 h10]
  from th have "smoothedLandmarks (step (Frame 0 movedFaceAt66) detectedPending) ! 0
      = Point (Num (154.48 + (110 - 154.48) * 0.7)) (Num (132.772 + (100 - 132.772) * 0.7))
              (Num (0 + (0 - 0) * 0.7))"
    by (rule conjunct1)
  then have r1: "smoothedLandmarks (step (Frame 0 movedFaceAt66) detectedPending) ! 0
      = Point (Num 123.344) (Num 109.8316) (Num 0)"
    by simp
  from th have r2: "realLandmarks (step (Frame 0 movedFaceAt66) detectedPending)
       = smoothedLandmarks (step (Frame 0 movedFaceAt66) detectedPending)"
    by (rule conjunct2 [THEN conjunct1])
  from t h3 h4 h5 sl rl r1 r2 show ?thesis by simp
qed

text \<open>
  Claim C9. Two fallback computations at the same timestamp on mirrors with the same
  webcam (the same video width and height) return the same value, and when they return
  \<^verbatim>\<open>true\<close> they store the identical bounding box, whatever else the two mirrors hold;
  with a video of positive size they do return \<^verbatim>\<open>true\<close>.
\<close>

theorem fallback_box_depends_on_time_and_size_only:
  assumes "webcam s1 = webcam s2"
  shows "returned (performFallbackFaceDetection now s1)
           = returned (performFallbackFaceDetection now s2)
         \<and> (returned (performFallbackFaceDetection now s1) = Some True \<longrightarrow>
              faceBoundingBox (stateOf (performFallbackFaceDetection now s1))
                = faceBoundingBox (stateOf (performFallbackFaceDetection now s2))
              \<and> faceBoundingBox (stateOf (performFallbackFaceDetection now s1)) \<noteq> None)
         \<and> (webcamReady s1 \<longrightarrow> returned (performFallbackFaceDetection now s1) = Some True)"
proof (cases "webcam s2")
  case None
  with assms show ?thesis
    by (simp add: performFallbackFaceDetection_def webcamReady_def)
next
  case (Some wh)
  obtain w h where wh: "wh = (w, h)" by (cases wh)
  show ?thesis
  proof (cases "w = 0 \<or> h = 0")
    case True
    with Some wh assms show ?thesis
      by (auto simp add: performFallbackFaceDetection_def webcamReady_def)
  next
    case False
    with Some wh assms show ?thesis
      by (simp add: performFallbackFaceDetection_def createBasicLandmarksFromBoundingBox_def
            webcamReady_def Let_def)
  qed
qed

theorem fallback_box_depends_on_time_and_size_only_witness:
  "webcam analysingMirror = webcam (newMirror (Some (640, 480)) False True)
   \<and> faceCenter analysingMirror \<noteq> faceCenter (newMirror (Some (640, 480)) False True)
   \<and> returned (performFallbackFaceDetection 0 analysingMirror) = Some True
   \<and> faceBoundingBox (stateOf (performFallbackFaceDetection 0 analysingMirror))
       = faceBoundingBox (stateOf (performFallbackFaceDetection 0
                                     (newMirror (Some (640, 480)) False True)))
   \<and> faceBoundingBox (stateOf (performFallbackFaceDetection 0 analysingMirror))
       = Some \<lparr> box_x = Num 320, box_y = Num 245, box_width = Num 192, box_height = Num 238.4 \<rparr>"
proof -
  have h: "webcam analysingMirror = webcam (newMirror (Some (640, 480)) False True)"
    by (simp add: analysingMirror_eq newMirror_def)
  have d: "faceCenter analysingMirror \<noteq> faceCenter (newMirror (Some (640, 480)) False True)"
    by (simp add: analysingMirror_eq newMirror_def)
  have r: "webcamReady analysingMirror"
    by (simp add: analysingMirror_eq webcamReady_def)
  have v: "faceBoundingBox (stateOf (performFallbackFaceDetection 0 analysingMirror))
       = Some \<lparr> box_x = Num 320, box_y = Num 245, box_width = Num 192, box_height = Num 238.4 \<rparr>"
    by (simp add: analysingMirror_eq performFallbackFaceDetection_def
          createBasicLandmarksFromBoundingBox_def Let_def)
  from fallback_box_depends_on_time_and_size_only [OF h, of 0] r
  have "returned (performFallbackFaceDetection 0 analysingMirror) = Some True
     \<and> faceBoundingBox (stateOf (performFallbackFaceDetection 0 analysingMirror))
       = faceBoundingBox (stateOf (performFallbackFaceDetection 0
                                     (newMirror (Some (640, 480)) False True)))"
    by blast
  with h d v show ?thesis by blast
qed

text \<open>
  Claim C10, as stated, fails: a keypoint that carries x and y can be stored as a
  landmark without numbers when an earlier frame had a keypoint without coordinates at the
  same index. In the sample session, after the fallback frame, the detector resolves with
  a face whose first keypoint is an object without \<^verbatim>\<open>x\<close> and \<^verbatim>\<open>y\<close>, and in the
  next frame with the sample face, whose two keypoints both carry x and y. Both frames
  are drawn in detected mode. Smoothing the first keypoint of the sample face into the
  stored point gives a point whose x and y are no numbers, and its distance to the other
  stored landmark is no number.
\<close>

theorem malformed_keypoint_poisons_later_landmark_counterexample:
  "carriesXY (KObject (Some 100) (Some 100) None)
   \<and> chosenKeypoints sampleFace
       = Some [KObject (Some 100) (Some 100) None, KObject (Some 200) (Some 300) None]
   \<and> numericLandmarks fallbackPending
   \<and> map returned (outcomes [Frame 0 malformedFaceAt33, Frame 0 sampleFaceAt33,
                             Frame 0 sampleFaceAt33] fallbackPending)
       = [Some DrewDetected, Some DrewDetected]
   \<and> realLandmarks (run [Frame 0 malformedFaceAt33, Frame 0 sampleFaceAt33,
                          Frame 0 sampleFaceAt33] fallbackPending)
       = [Point NaN NaN (Num 0), Point (Num 214.256) (Num 291.8316) (Num 0)]
   \<and> distance (Point NaN NaN (Num 0)) (Point (Num 214.256) (Num 291.8316) (Num 0)) = NaN"
proof -
  have a: "chosenKeypoints sampleFace
       = Some [KObject (Some 100) (Some 100) None, KObject (Some 200) (Some 300) None]"
    by (simp add: chosenKeypoints_def present_def sampleFace_def)
  have b: "numericLandmarks fallbackPending"
    by (simp add: fallbackPending_eq analysingMirror_eq numericLandmarks_def numPoint_def
          numericPoint_def)
  have c: "map returned (outcomes [Frame 0 malformedFaceAt33, Frame 0 sampleFaceAt33,
                             Frame 0 sampleFaceAt33] fallbackPending)
       = [Some DrewDetected, Some DrewDetected]"
    by (simp add: fallbackPending_eq analysingMirror_eq tracker_defs Let_def numPoint_def)
  have d: "realLandmarks (run [Frame 0 malformedFaceAt33, Frame 0 sampleFaceAt33,
                          Frame 0 sampleFaceAt33] fallbackPending)
       = [Point NaN NaN (Num 0), Point (Num 214.256) (Num 291.8316) (Num 0)]"
    by (simp add: fallbackPending_eq analysingMirror_eq tracker_defs Let_def numPoint_def)
  have e: "distance (Point NaN NaN (Num 0)) (Point (Num 214.256) (Num 291.8316) (Num 0)) = NaN"
    by (simp add: distance_def Let_def)
  from a b c d e show ?thesis by simp
qed

text \<open>
  Claim C10, amended. Start from a mirror whose stored landmarks are all numeric (the
  constructor state has none) and run any sequence of events in which every face read by
  the tracker has keypoints that all carry x and y, in object or positional form (or,
  having no keypoints, a bounding box of four numbers). Then every stored landmark is
  again a point of three numbers, so the distance of any two stored landmarks is a real
  number; and the landmark made from a single such keypoint has three numeric
  coordinates, the third being 0 when the keypoint has no z.
\<close>

theorem stored_landmarks_are_numeric:
  assumes "numericLandmarks s"
    and "\<forall>e \<in> set es. wellFormedEvent e"
    and "carriesXY kp"
  shows "numericLandmarks (run es s)
         \<and> (\<forall>p \<in> set (realLandmarks (run es s)).
              \<forall>q \<in> set (realLandmarks (run es s)). \<exists>d. distance p q = Num d)
         \<and> (\<exists>a b c. keypointToLandmark (Some wh) kp = Inr (Point (Num a) (Num b) (Num c))
                \<and> (lacksZ kp \<longrightarrow> c = 0))"
proof -
  have n: "numericLandmarks (run es s)"
    using assms(1,2) by (rule run_numeric)
  have "\<forall>p \<in> set (realLandmarks (run es s)).
          \<forall>q \<in> set (realLandmarks (run es s)). \<exists>d. distance p q = Num d"
  proof (intro ballI)
    fix p q
    assume "p \<in> set (realLandmarks (run es s))"
      and "q \<in> set (realLandmarks (run es s))"
    with n have "numericPoint p" and "numericPoint q"
      by (simp_all add: numericLandmarks_def list_all_iff)
    then show "\<exists>d. distance p q = Num d"
      using distance_numeric by blast
  qed
  with n keypoint_numeric [OF assms(3), of wh] show ?thesis by blast
qed

theorem stored_landmarks_are_numeric_witness:
  "numericLandmarks fallbackPending
   \<and> wellFormedEvent (Frame 0 sampleFaceAt33)
   \<and> wellFormedEvent Claim
   \<and> carriesXY (KObject (Some 100) (Some 100) None)
   \<and> realLandmarks (run [Frame 0 sampleFaceAt33, Claim] fallbackPending)
       = [Point (Num 154.48) (Num 132.772) (Num 0), Point (Num 247.52) (Num 272.772) (Num 0)]
   \<and> numericLandmarks (run [Frame 0 sampleFaceAt33, Claim] fallbackPending)
   \<and> (\<exists>d. distance (Point (Num 154.48) (Num 132.772) (Num 0))
                     (Point (Num 247.52) (Num 272.772) (Num 0)) = Num d)
   \<and> (\<exists>a b. keypointToLandmark (Some (640, 480)) (KObject (Some 100) (Some 100) None)
               = Inr (Point (Num a) (Num b) (Num 0)))"
proof -
  let ?es = "[Frame 0 sampleFaceAt33, Claim]"
  have h1: "numericLandmarks fallbackPending"
    by (simp add: fallbackPending_eq analysingMirror_eq numericLandmarks_def numPoint_def
          numericPoint_def)
  have w1: "wellFormedEvent (Frame 0 sampleFaceAt33)"
    by (simp add: wellFormedDetection_def wellFormedFace_def chosenKeypoints_def present_def
          sampleFace_def sampleFaceAt33_def)
  have w2: "wellFormedEvent Claim" by simp
  have h2: "\<forall>e \<in> set ?es. wellFormedEvent e"
    using w1 w2 by simp
  have h3: "carriesXY (KObject (Some 100) (Some 100) None)" by simp
  have lz: "lacksZ (KObject (Some 100) (Some 100) None)" by simp
  have lm1: "realLandmarks (step (Frame 0 sampleFaceAt33) fallbackPending)
       = [Point (Num 154.48) (Num 132.772) (Num 0), Point (Num 247.52) (Num 272.772) (Num 0)]"
    by (simp add: fallbackPending_eq analysingMirror_eq tracker_defs Let_def numPoint_def)
  have nf: "\<forall>k inp. Claim \<noteq> Frame k inp" by simp
  have lm: "realLandmarks (run ?es fallbackPending)
       = [Point (Num 154.48) (Num 132.772) (Num 0), Point (Num 247.52) (Num 272.772) (Num 0)]"
    using controller_step_keeps_tracker [OF nf, of "step (Frame 0 sampleFaceAt33) fallbackPending"]
      lm1
    by simp
  note th = stored_landmarks_are_numeric [OF h1 h2 h3, of "(640, 480)"]
  from th have n: "numericLandmarks (run ?es fallbackPending)" by blast
  from th have "\<forall>p \<in> set (realLandmarks (run ?es fallbackPending)).
      \<forall>q \<in> set (realLandmarks (run ?es fallbackPending)). \<exists>d. distance p q = Num d"
    by blast
  then have d: "\<exists>d. distance (Point (Num 154.48) (Num 132.772) (Num 0))
                     (Point (Num 247.52) (Num 272.772) (Num 0)) = Num d"
    unfolding lm by simp
  from th lz have z: "\<exists>a b. keypointToLandmark (Some (640, 480)) (KObject (Some 100) (Some 100) None)
               = Inr (Point (Num a) (Num b) (Num 0))"
    by blast
  from h1 w1 w2 h3 lm n d z show ?thesis by blast
qed

end
